theory Spec2Isabelle
  imports
    Complex_Main
    "HOL-Library.Char_ord"
    "HOL-Library.List_Lexorder"
    "HOL-Library.Product_Lexorder"
begin


section \<open>Python values and built-ins used by the masking modules\<close>

text \<open>
  The modules under \<^verbatim>\<open>src/mask\<close> and \<^verbatim>\<open>graph_builder.py\<close> read a PLINK pairwise-LD file
  line by line, split each line on whitespace, and work on the resulting text fields.
  Strings are modelled as \<^typ>\<open>string\<close>; the model covers ASCII input, where Python's code-point
  order on \<^verbatim>\<open>str\<close> and the lexicographic order on \<^typ>\<open>char list\<close> agree.
\<close>

datatype py_error = ValueError | TypeError | ZeroDivisionError | IndexError | KeyError
  | OverflowError | InvalidOperationError

text \<open>
  A Python \<^verbatim>\<open>float\<close>. Finite values are kept as exact reals (rounding to binary64 is not
  modelled); the three special values are kept apart because \<^verbatim>\<open>float()\<close> parses them and
  every comparison with \<^verbatim>\<open>nan\<close> is false.
\<close>

datatype pyfloat = Finite real | PosInf | NegInf | NaN

fun py_ge :: "pyfloat \<Rightarrow> pyfloat \<Rightarrow> bool" where
  "py_ge NaN _ = False"
| "py_ge _ NaN = False"
| "py_ge PosInf _ = True"
| "py_ge _ NegInf = True"
| "py_ge (Finite x) (Finite y) = (y \<le> x)"
| "py_ge (Finite x) PosInf = False"
| "py_ge NegInf (Finite y) = False"
| "py_ge NegInf PosInf = False"

text \<open>Position of a float in the total order of the non-\<^verbatim>\<open>nan\<close> values; used as the sort key.\<close>

fun pf_rank :: "pyfloat \<Rightarrow> nat \<times> real" where
  "pf_rank NegInf = (0, 0)"
| "pf_rank (Finite x) = (1, x)"
| "pf_rank PosInf = (2, 0)"
| "pf_rank NaN = (3, 0)"

subsection \<open>Rounding to binary64\<close>

text \<open>
  A Python \<^verbatim>\<open>float\<close> is an IEEE 754 binary64 number. The result of \<^verbatim>\<open>float(s)\<close> and of every
  arithmetic operation is the exact result rounded to the nearest binary64 number, ties to the
  even significand; a magnitude that rounds to \<open>2 ^ 1024\<close> or more becomes an infinity.

  \<open>binade fuel x e\<close> normalises \<open>x\<close>: it returns the exponent \<open>e'\<close> with \<open>1 \<le> x / 2 ^ e' < 2\<close>,
  but not below \<open>- 1022\<close>, where the subnormal numbers begin. The exponents of binary64 lie
  between \<open>- 1074\<close> and \<open>1023\<close>, so a fuel of 2200 is never used up before the overflow test
  decides.
\<close>

definition pow2 :: "int \<Rightarrow> real" where
  "pow2 e = (if 0 \<le> e then 2 ^ nat e else 1 / 2 ^ nat (- e))"

function binade :: "nat \<Rightarrow> real \<Rightarrow> int \<Rightarrow> int" where
  "binade fuel x e =
     (if fuel = 0 then e
      else if 2 \<le> x then binade (fuel - 1) (x / 2) (e + 1)
      else if x < 1 \<and> - 1022 < e then binade (fuel - 1) (x * 2) (e - 1)
      else e)"
  by pat_completeness auto
termination by (relation "measure (\<lambda>(fuel, x, e). fuel)") auto

declare binade.simps [simp del]

definition round_half_even :: "real \<Rightarrow> int" where
  "round_half_even x =
     (let f = \<lfloor>x\<rfloor>; d = x - of_int f
      in if d < 1 / 2 then f else if 1 / 2 < d then f + 1 else if even f then f else f + 1)"

definition round_binary64 :: "real \<Rightarrow> pyfloat" where
  "round_binary64 x =
     (if x = 0 then Finite 0
      else (let a = \<bar>x\<bar>; e = binade 2200 a 0; ulp = pow2 (e - 52);
                y = of_int (round_half_even (a / ulp)) * ulp
            in if pow2 1024 \<le> y then (if x < 0 then NegInf else PosInf)
               else Finite (if x < 0 then - y else y)))"

text \<open>The value of a decimal literal of the source, such as \<^verbatim>\<open>0.7\<close>.\<close>

definition float_lit :: "real \<Rightarrow> real" where
  "float_lit x = (case round_binary64 x of Finite y \<Rightarrow> y | _ \<Rightarrow> 0)"

subsection \<open>\<^verbatim>\<open>str.strip\<close>, \<^verbatim>\<open>str.split\<close>\<close>

definition is_space :: "char \<Rightarrow> bool" where
  "is_space c = (c \<in> set [CHR '' '', CHR 0x09, CHR 0x0A, CHR 0x0B, CHR 0x0C, CHR 0x0D,
                            CHR 0x1C, CHR 0x1D, CHR 0x1E, CHR 0x1F])"

definition py_strip :: "string \<Rightarrow> string" where
  "py_strip s = rev (dropWhile is_space (rev (dropWhile is_space s)))"

fun split_ws_aux :: "string \<Rightarrow> string \<Rightarrow> string list" where
  "split_ws_aux cur [] = (if cur = [] then [] else [cur])"
| "split_ws_aux cur (c # cs) =
     (if is_space c then (if cur = [] then split_ws_aux [] cs else cur # split_ws_aux [] cs)
      else split_ws_aux (cur @ [c]) cs)"

definition py_split :: "string \<Rightarrow> string list" where
  "py_split s = split_ws_aux [] s"

fun split_on_aux :: "char \<Rightarrow> string \<Rightarrow> string \<Rightarrow> string list" where
  "split_on_aux d cur [] = [cur]"
| "split_on_aux d cur (c # cs) =
     (if c = d then cur # split_on_aux d [] cs else split_on_aux d (cur @ [c]) cs)"

definition py_split_on :: "char \<Rightarrow> string \<Rightarrow> string list" where
  "py_split_on d s = split_on_aux d [] s"

subsection \<open>\<^verbatim>\<open>float(str)\<close> and \<^verbatim>\<open>int(str)\<close>\<close>

definition is_digit :: "char \<Rightarrow> bool" where
  "is_digit c = (c \<in> set ''0123456789'')"

definition digit_val :: "char \<Rightarrow> nat" where
  "digit_val c = (of_char c :: nat) - 48"

definition digits_val :: "string \<Rightarrow> nat" where
  "digits_val s = foldl (\<lambda>acc c. 10 * acc + digit_val c) 0 s"

fun no_double_underscore :: "string \<Rightarrow> bool" where
  "no_double_underscore (a # b # cs) =
     (\<not> (a = CHR ''_'' \<and> b = CHR ''_'') \<and> no_double_underscore (b # cs))"
| "no_double_underscore _ = True"

text \<open>\<^verbatim>\<open>digitpart ::= digit (["_"] digit)*\<close> of the Python grammar; the value drops the underscores.\<close>

definition digitpart :: "string \<Rightarrow> nat option" where
  "digitpart s =
     (if s \<noteq> [] \<and> is_digit (hd s) \<and> is_digit (last s)
         \<and> (\<forall>c \<in> set s. is_digit c \<or> c = CHR ''_'') \<and> no_double_underscore s
      then Some (digits_val (filter is_digit s)) else None)"

definition strip_sign :: "string \<Rightarrow> bool \<times> string" where
  "strip_sign s =
     (case s of
        [] \<Rightarrow> (False, [])
      | c # cs \<Rightarrow> if c = CHR ''-'' then (True, cs) else if c = CHR ''+'' then (False, cs)
                 else (False, s))"

definition to_lower :: "char \<Rightarrow> char" where
  "to_lower c =
     (if c \<in> set ''ABCDEFGHIJKLMNOPQRSTUVWXYZ'' then char_of ((of_char c :: nat) + 32) else c)"

definition is_exp_char :: "char \<Rightarrow> bool" where
  "is_exp_char c = (c = CHR ''e'' \<or> c = CHR ''E'')"

text \<open>\<^verbatim>\<open>number ::= [digitpart] "." digitpart | digitpart ["."]\<close>\<close>

definition parse_number :: "string \<Rightarrow> real option" where
  "parse_number m =
     (let ip = takeWhile (\<lambda>c. c \<noteq> CHR ''.'') m;
          rest = dropWhile (\<lambda>c. c \<noteq> CHR ''.'') m
      in if rest = [] then map_option real (digitpart ip)
         else (let fp = tl rest in
           if ip = [] \<and> fp = [] then None
           else (case (if ip = [] then Some 0 else digitpart ip,
                       if fp = [] then Some 0 else digitpart fp) of
                   (Some a, Some b) \<Rightarrow>
                      Some (real a + real b / 10 ^ length (filter is_digit fp))
                 | _ \<Rightarrow> None)))"

definition parse_exponent :: "string \<Rightarrow> int option" where
  "parse_exponent e =
     (let (neg, ds) = strip_sign e
      in map_option (\<lambda>n. if neg then - int n else int n) (digitpart ds))"

definition pow10 :: "int \<Rightarrow> real" where
  "pow10 e = (if 0 \<le> e then 10 ^ nat e else 1 / 10 ^ nat (- e))"

text \<open>
  \<^verbatim>\<open>float(s)\<close> for a field without surrounding whitespace: \<^verbatim>\<open>None\<close> stands for the
  \<^verbatim>\<open>ValueError\<close> that the callers catch.
\<close>

definition py_float :: "string \<Rightarrow> pyfloat option" where
  "py_float s =
     (let (neg, body) = strip_sign s; low = map to_lower body
      in if low = ''inf'' \<or> low = ''infinity'' then Some (if neg then NegInf else PosInf)
         else if low = ''nan'' then Some NaN
         else (let m = takeWhile (\<lambda>c. \<not> is_exp_char c) body;
                   rest = dropWhile (\<lambda>c. \<not> is_exp_char c) body
               in case (parse_number m, if rest = [] then Some 0 else parse_exponent (tl rest)) of
                    (Some v, Some e) \<Rightarrow> Some (round_binary64 ((if neg then - v else v) * pow10 e))
                  | _ \<Rightarrow> None))"

text \<open>\<^verbatim>\<open>int(s)\<close> on a string: optional sign, then a digit part.\<close>

definition py_int :: "string \<Rightarrow> int option" where
  "py_int s =
     (let (neg, ds) = strip_sign s
      in map_option (\<lambda>n. if neg then - int n else int n) (digitpart ds))"

text \<open>Python's \<^verbatim>\<open>xs[:k]\<close>: a negative bound counts from the end.\<close>

definition py_slice_to :: "int \<Rightarrow> 'a list \<Rightarrow> 'a list" where
  "py_slice_to k xs = (if 0 \<le> k then take (nat k) xs else take (nat (int (length xs) + k)) xs)"

text \<open>\<^verbatim>\<open>int(x)\<close> on a float truncates towards zero.\<close>

definition py_trunc :: "real \<Rightarrow> int" where
  "py_trunc x = (if 0 \<le> x then \<lfloor>x\<rfloor> else \<lceil>x\<rceil>)"

text \<open>\<^verbatim>\<open>int(x)\<close> on a float raises on \<^verbatim>\<open>nan\<close> and on the infinities.\<close>

fun py_int_of_float :: "pyfloat \<Rightarrow> py_error + int" where
  "py_int_of_float (Finite x) = Inr (py_trunc x)"
| "py_int_of_float NaN = Inl ValueError"
| "py_int_of_float PosInf = Inl OverflowError"
| "py_int_of_float NegInf = Inl OverflowError"

text \<open>
  \<^verbatim>\<open>int(len(xs) * rate)\<close>: the length is converted to a float (exactly, below \<open>2 ^ 53\<close>; with
  \<^verbatim>\<open>OverflowError\<close> when it is too large for a float), the product is rounded to binary64, and
  the result is truncated.
\<close>

definition scaled_count :: "nat \<Rightarrow> real \<Rightarrow> py_error + int" where
  "scaled_count n rate =
     (case round_binary64 (real n) of
        Finite a \<Rightarrow> py_int_of_float (round_binary64 (a * rate))
      | _ \<Rightarrow> Inl OverflowError)"

section \<open>Run-time environment: hash order and the NumPy generator\<close>

text \<open>
  What the modules take from their run-time environment is a parameter of the model.

  \<^item> The iteration order of a Python \<^verbatim>\<open>set\<close> of strings depends on the interpreter's hash seed,
    which changes from run to run. A set is modelled as the duplicate-free list of its elements
    in insertion order; \<open>set_order\<close> gives the order in which \<^verbatim>\<open>list(s)\<close> enumerates them in
    this run.
  \<^item> NumPy's global generator is a deterministic function of its seed. Its state has the abstract
    type \<^typ>\<open>'g\<close>; each primitive returns its draw and the next state. \<open>np_choice_p p\<close> draws an
    index of \<open>p\<close> with the probabilities \<open>p\<close>, \<open>np_choice_p_size p n\<close> draws \<open>n\<close> of them, and
    \<open>np_shuffle n\<close> is the rearrangement that \<^verbatim>\<open>shuffle\<close> applies to a list of length \<open>n\<close>.
  \<^item> \<open>np_argsort\<close> and \<open>sk_fit_predict\<close> (the labels that scikit-learn's average-linkage
    agglomerative clustering assigns for a number of clusters and a distance matrix) are
    deterministic library functions without a model of their own.
\<close>

record 'g np_env =
  set_order :: "string list \<Rightarrow> string list"
  np_seed :: "nat \<Rightarrow> 'g"
  np_permutation :: "nat \<Rightarrow> 'g \<Rightarrow> nat list \<times> 'g"
  np_random :: "nat \<Rightarrow> 'g \<Rightarrow> real list \<times> 'g"
  np_argsort :: "real list \<Rightarrow> nat list"
  np_choice_p :: "real list \<Rightarrow> 'g \<Rightarrow> nat \<times> 'g"
  np_choice_p_size :: "real list \<Rightarrow> nat \<Rightarrow> 'g \<Rightarrow> nat list \<times> 'g"
  np_beta :: "real \<Rightarrow> real \<Rightarrow> 'g \<Rightarrow> real \<times> 'g"
  np_uniform :: "real \<Rightarrow> real \<Rightarrow> 'g \<Rightarrow> real \<times> 'g"
  np_shuffle :: "nat \<Rightarrow> 'g \<Rightarrow> nat list \<times> 'g"
  sk_fit_predict :: "nat \<Rightarrow> real list list \<Rightarrow> nat list"

text \<open>What the environment guarantees: a set is enumerated without loss or repetition.\<close>

definition order_ok :: "'g np_env \<Rightarrow> bool" where
  "order_ok env =
     (\<forall>xs. distinct xs \<longrightarrow> distinct (set_order env xs) \<and> set (set_order env xs) = set xs)"

text \<open>\<^verbatim>\<open>np.random.permutation(n)\<close> is a permutation of \<^verbatim>\<open>range(n)\<close>.\<close>

definition permutation_ok :: "'g np_env \<Rightarrow> bool" where
  "permutation_ok env =
     (\<forall>n g. distinct (fst (np_permutation env n g)) \<and> set (fst (np_permutation env n g)) = {0..<n})"

text \<open>
  \<^verbatim>\<open>np.random.choice(a, size=size, replace=False)\<close> of the legacy generator: it refuses a
  sample larger than the population or of negative size, and otherwise indexes \<^verbatim>\<open>a\<close> with the
  first \<^verbatim>\<open>size\<close> entries of a fresh permutation.
\<close>

definition np_choice :: "'g np_env \<Rightarrow> 'a list \<Rightarrow> int \<Rightarrow> 'g \<Rightarrow> py_error + ('a list \<times> 'g)" where
  "np_choice env a sz g =
     (if int (length a) < sz \<or> sz < 0 then Inl ValueError
      else (let (p, g') = np_permutation env (length a) g
            in Inr (map (\<lambda>i. a ! i) (take (nat sz) p), g')))"

text \<open>\<^verbatim>\<open>s.add(x)\<close> and \<^verbatim>\<open>s.update(xs)\<close> on the list model of a set.\<close>

definition set_add :: "'a \<Rightarrow> 'a list \<Rightarrow> 'a list" where
  "set_add x s = (if x \<in> set s then s else s @ [x])"

definition set_update :: "'a list \<Rightarrow> 'a list \<Rightarrow> 'a list" where
  "set_update xs s = foldl (\<lambda>acc x. set_add x acc) s xs"

text \<open>\<^verbatim>\<open>sorted(list(unique_snps))\<close>\<close>

definition sorted_snps :: "'g np_env \<Rightarrow> string list \<Rightarrow> string list" where
  "sorted_snps env unique = sort (set_order env unique)"

section \<open>Streaming reader shared by all strategies\<close>

text \<open>
  Every \<^verbatim>\<open>create_mask_from_ld\<close> reads the file in batches: up to \<^verbatim>\<open>batch_size\<close> calls of
  \<^verbatim>\<open>readline\<close> per batch, stopping at the first empty batch. The file is the list of its lines.
  With \<^verbatim>\<open>batch_size <= 0\<close> the first batch is empty and nothing is read. The file system
  (the size of the input, the directory of the output) is outside the model.
\<close>

function read_batches :: "nat \<Rightarrow> 'a list \<Rightarrow> 'a list list" where
  "read_batches n ls = (if n = 0 \<or> ls = [] then [] else take n ls # read_batches n (drop n ls))"
  by pat_completeness auto
termination
  by (relation "measure (\<lambda>(n, ls). length ls)") auto

declare read_batches.simps [simp del]

text \<open>
  \<^verbatim>\<open>parts = line.strip().split()\<close> followed by the guard
  \<^verbatim>\<open>len(parts) >= 7 and parts[6] != 'R2'\<close>.
\<close>

definition data_fields :: "string \<Rightarrow> string list option" where
  "data_fields line =
     (let parts = py_split (py_strip line)
      in if 7 \<le> length parts \<and> parts ! 6 \<noteq> ''R2'' then Some parts else None)"

text \<open>\<^verbatim>\<open>f"{parts[i]}_{parts[j]}"\<close>\<close>

definition snp_key :: "string list \<Rightarrow> nat \<Rightarrow> nat \<Rightarrow> string" where
  "snp_key parts i j = parts ! i @ ''_'' @ parts ! j"

text \<open>
  The threshold test of the k-nearest and MAF+cluster loaders: \<^verbatim>\<open>float(parts[6])\<close> inside
  \<^verbatim>\<open>try\<close>, then \<^verbatim>\<open>r2 >= self.r2_threshold\<close>. The result is the retained edge.
\<close>

definition retained_edge :: "pyfloat \<Rightarrow> string \<Rightarrow> (string \<times> string \<times> pyfloat) option" where
  "retained_edge thr line =
     (case data_fields line of
        None \<Rightarrow> None
      | Some parts \<Rightarrow>
          (case py_float (parts ! 6) of
             None \<Rightarrow> None
           | Some r2 \<Rightarrow>
               if py_ge r2 thr then Some (snp_key parts 0 1, snp_key parts 3 4, r2) else None))"

section \<open>k-nearest SNP masking\<close>

type_synonym neighbor_graph = "string \<rightharpoonup> (string \<times> pyfloat) list"

record knn_state =
  snp_neighbors :: neighbor_graph
  unique_snps :: "string list"

definition knn_init :: knn_state where
  "knn_init = \<lparr>snp_neighbors = Map.empty, unique_snps = []\<rparr>"

text \<open>\<^verbatim>\<open>snp_neighbors.get(k, [])\<close>\<close>

definition neighbors_of :: "neighbor_graph \<Rightarrow> string \<Rightarrow> (string \<times> pyfloat) list" where
  "neighbors_of g k = (case g k of None \<Rightarrow> [] | Some l \<Rightarrow> l)"

text \<open>\<^verbatim>\<open>snp_neighbors[k].append(x)\<close> on a \<^verbatim>\<open>defaultdict(list)\<close>\<close>

definition dd_append :: "neighbor_graph \<Rightarrow> string \<Rightarrow> string \<times> pyfloat \<Rightarrow> neighbor_graph" where
  "dd_append g k x = g(k \<mapsto> neighbors_of g k @ [x])"

definition knn_line :: "pyfloat \<Rightarrow> knn_state \<Rightarrow> string \<Rightarrow> knn_state" where
  "knn_line thr st line =
     (case retained_edge thr line of
        None \<Rightarrow> st
      | Some (a, b, r2) \<Rightarrow>
          \<lparr>snp_neighbors = dd_append (dd_append (snp_neighbors st) a (b, r2)) b (a, r2),
           unique_snps = set_update [a, b] (unique_snps st)\<rparr>)"

definition knn_load :: "pyfloat \<Rightarrow> int \<Rightarrow> string list \<Rightarrow> knn_state" where
  "knn_load thr batch_size file =
     foldl (\<lambda>st batch. foldl (knn_line thr) st batch) knn_init (read_batches (nat batch_size) file)"

text \<open>
  \<^verbatim>\<open>lst.sort(key=lambda x: x[1], reverse=True)\<close>: CPython reverses the list, sorts it with a
  stable ascending sort and reverses the result, so equal keys keep their original order.
\<close>

definition sort_by_r2_desc :: "(string \<times> pyfloat) list \<Rightarrow> (string \<times> pyfloat) list" where
  "sort_by_r2_desc xs = rev (sort_key (\<lambda>p. pf_rank (snd p)) (rev xs))"

definition sort_neighbors :: "neighbor_graph \<Rightarrow> neighbor_graph" where
  "sort_neighbors g = (\<lambda>k. map_option sort_by_r2_desc (g k))"

text \<open>The neighbor graph as it stands after the sorting loop.\<close>

definition knn_graph :: "pyfloat \<Rightarrow> int \<Rightarrow> string list \<Rightarrow> neighbor_graph" where
  "knn_graph thr batch_size file = sort_neighbors (snp_neighbors (knn_load thr batch_size file))"

text \<open>The loop over the seeds: the seed itself, then its first \<^verbatim>\<open>k\<close> neighbors.\<close>

definition mask_seed :: "neighbor_graph \<Rightarrow> int \<Rightarrow> string list \<Rightarrow> string \<Rightarrow> string list" where
  "mask_seed g k masked seed =
     set_update (map fst (py_slice_to k (neighbors_of g seed))) (set_add seed masked)"

definition knn_masked :: "neighbor_graph \<Rightarrow> int \<Rightarrow> string list \<Rightarrow> string list" where
  "knn_masked g k seeds = foldl (mask_seed g k) [] seeds"

subsection \<open>The mask table\<close>

text \<open>
  The columns \<^verbatim>\<open>CHR, POS, SNP_ID, MASKED\<close> are common to the per-variant strategies; each
  strategy adds its own. \<^verbatim>\<open>chr_pos = snp.split('_')\<close> gives the first two: every key is built
  as \<^verbatim>\<open>f"{a}_{b}"\<close>, so \<^verbatim>\<open>chr_pos\<close> has at least two entries.
\<close>

record mask_row =
  row_chr :: string
  row_pos :: string
  row_snp_id :: string
  row_masked :: bool

record knn_row = mask_row +
  row_is_seed :: bool
  row_n_neighbors :: nat

text \<open>
  How a call of \<^verbatim>\<open>create_mask_from_ld\<close> ends: it returns the table it has written, or it
  raises; in the second case the table may already have been written to \<^verbatim>\<open>output_path\<close>.
  A table is the list of rows from which the data frame is built.
\<close>

datatype 'r outcome = Done "'r list" | Failed py_error "'r list option"

text \<open>
  \<^verbatim>\<open>pl.DataFrame(mask_data, schema=[...])\<close> on a list of row lists, without \<^verbatim>\<open>orient\<close>. Polars
  infers the orientation from the shape: when there are exactly as many rows as names in the
  schema it reads the inner lists as columns. A row of a mask table holds strings next to
  booleans and numbers, so a column built from it is refused with \<^verbatim>\<open>TypeError\<close>. With any other
  number of rows the lists are read as rows.
\<close>

definition pl_dataframe :: "nat \<Rightarrow> 'r list \<Rightarrow> py_error + 'r list" where
  "pl_dataframe n_columns mask_data =
     (if length mask_data = n_columns then Inl TypeError else Inr mask_data)"

definition knn_mask_row :: "neighbor_graph \<Rightarrow> string list \<Rightarrow> string list \<Rightarrow> string \<Rightarrow> knn_row" where
  "knn_mask_row g masked_snps seed_snps snp =
     (let chr_pos = py_split_on CHR ''_'' snp
      in \<lparr>row_chr = chr_pos ! 0, row_pos = chr_pos ! 1, row_snp_id = snp,
          row_masked = (snp \<in> set masked_snps), row_is_seed = (snp \<in> set seed_snps),
          row_n_neighbors = length (neighbors_of g snp)\<rparr>)"

text \<open>
  \<^verbatim>\<open>KNearestSNPMasking.create_mask_from_ld\<close>. The table is built and written before the final
  report divides by \<^verbatim>\<open>len(snp_list)\<close>.
\<close>

definition knn_create_mask ::
  "'g np_env \<Rightarrow> int \<Rightarrow> real \<Rightarrow> pyfloat \<Rightarrow> string list \<Rightarrow> int \<Rightarrow> knn_row outcome" where
  "knn_create_mask env k missing_rate thr file batch_size =
     (let st = knn_load thr batch_size file;
          g = sort_neighbors (snp_neighbors st);
          snp_list = sorted_snps env (unique_snps st)
      in case scaled_count (length snp_list) missing_rate of
           Inl e \<Rightarrow> Failed e None
         | Inr n_seeds \<Rightarrow>
             (case np_choice env snp_list n_seeds (np_seed env 42) of
                Inl e \<Rightarrow> Failed e None
              | Inr (seed_snps, _) \<Rightarrow>
                  (let masked_snps = knn_masked g k seed_snps;
                       mask_data = map (knn_mask_row g masked_snps seed_snps) snp_list
                   in case pl_dataframe 6 mask_data of
                        Inl e \<Rightarrow> Failed e None
                      | Inr mask_df \<Rightarrow>
                          if snp_list = [] then Failed ZeroDivisionError (Some mask_df)
                          else Done mask_df)))"

text \<open>
  For the statements: the retained edges of a file in file order, and what one edge appends to
  the neighbor list of a variant \<open>v\<close>.
\<close>

definition retained_edges :: "pyfloat \<Rightarrow> string list \<Rightarrow> (string \<times> string \<times> pyfloat) list" where
  "retained_edges thr file = List.map_filter (retained_edge thr) file"

definition edge_entries :: "string \<Rightarrow> string \<times> string \<times> pyfloat \<Rightarrow> (string \<times> pyfloat) list" where
  "edge_entries v e =
     (case e of (a, b, r2) \<Rightarrow> (if a = v then [(b, r2)] else []) @ (if b = v then [(a, r2)] else []))"

text \<open>An edge that records the unordered pair \<open>{a, b}\<close>, in either orientation.\<close>

definition records_pair :: "string \<Rightarrow> string \<Rightarrow> string \<times> string \<times> pyfloat \<Rightarrow> bool" where
  "records_pair a b e = (case e of (x, y, r2) \<Rightarrow> (x = a \<and> y = b) \<or> (x = b \<and> y = a))"

section \<open>Graph builder: loading and threshold filter\<close>

text \<open>
  \<^verbatim>\<open>pl.DataFrame(batch_data, schema=[seven names])\<close> on a list of rows of seven strings,
  without \<^verbatim>\<open>orient\<close>. Polars infers the orientation from the shape: a list of exactly seven
  rows is read as seven columns, so the frame is the transpose of the batch; any other number
  of rows is read as rows.
\<close>

definition pl_frame_text :: "string list list \<Rightarrow> string list list" where
  "pl_frame_text batch_data =
     (if length batch_data = 7 then map (\<lambda>j. map (\<lambda>col. col ! j) batch_data) [0..<7]
      else batch_data)"










section \<open>Column-wise and random masking\<close>

text \<open>
  The column-wise, random and row-wise modules collect the variant keys of every line that
  passes the guard of the reader; they apply no threshold.
\<close>

definition collect_line :: "string list \<Rightarrow> string \<Rightarrow> string list" where
  "collect_line unique line =
     (case data_fields line of
        None \<Rightarrow> unique
      | Some parts \<Rightarrow> set_update [snp_key parts 0 1, snp_key parts 3 4] unique)"

definition collect_snps :: "int \<Rightarrow> string list \<Rightarrow> string list" where
  "collect_snps batch_size fl =
     foldl (\<lambda>unique batch. foldl collect_line unique batch) [] (read_batches (nat batch_size) fl)"

definition base_row :: "string \<Rightarrow> bool \<Rightarrow> mask_row" where
  "base_row snp is_masked =
     (let chr_pos = py_split_on CHR ''_'' snp
      in \<lparr>row_chr = chr_pos ! 0, row_pos = chr_pos ! 1, row_snp_id = snp, row_masked = is_masked\<rparr>)"

text \<open>\<^verbatim>\<open>ColumnwiseMissingness.create_mask_from_ld\<close>\<close>

definition columnwise_create_mask ::
  "'g np_env \<Rightarrow> real \<Rightarrow> string list \<Rightarrow> int \<Rightarrow> mask_row outcome" where
  "columnwise_create_mask env missing_rate fl batch_size =
     (let snp_list = sorted_snps env (collect_snps batch_size fl)
      in case scaled_count (length snp_list) missing_rate of
           Inl e \<Rightarrow> Failed e None
         | Inr n_mask \<Rightarrow>
             (case np_choice env snp_list n_mask (np_seed env 42) of
                Inl e \<Rightarrow> Failed e None
              | Inr (masked_snps, _) \<Rightarrow>
                  (case pl_dataframe 4 (map (\<lambda>snp. base_row snp (snp \<in> set masked_snps)) snp_list) of
                     Inl e \<Rightarrow> Failed e None
                   | Inr mask_df \<Rightarrow> Done mask_df)))"

subsection \<open>Random multi-stage masking\<close>

text \<open>\<^verbatim>\<open>generate_random_masks\<close>: seed once, then three arrays of \<^verbatim>\<open>n_snps\<close> uniform scores.\<close>

definition generate_random_masks :: "'g np_env \<Rightarrow> nat \<Rightarrow> nat \<Rightarrow> real list list \<times> 'g" where
  "generate_random_masks env seed n_snps =
     (let g0 = np_seed env seed;
          (m1, g1) = np_random env n_snps g0;
          (m2, g2) = np_random env n_snps g1;
          (m3, g3) = np_random env n_snps g2
      in ([m1, m2, m3], g3))"

text \<open>\<^verbatim>\<open>np.where(xs == x)[0][0]\<close>: the first position of \<open>x\<close> in \<open>xs\<close>.\<close>

definition first_index :: "'a list \<Rightarrow> 'a \<Rightarrow> nat" where
  "first_index xs x = length (takeWhile (\<lambda>y. y \<noteq> x) xs)"

text \<open>The loop of stage 2 over \<^verbatim>\<open>primary_indices\<close>.\<close>

definition stage2_select :: "nat list \<Rightarrow> real list \<Rightarrow> nat list" where
  "stage2_select primary_indices secondary_selection =
     foldl (\<lambda>masked idx.
              if secondary_selection ! first_index primary_indices idx > float_lit (3 / 10)
              then set_add idx masked else masked)
           [] primary_indices"

text \<open>
  \<^verbatim>\<open>apply_structured_masking\<close>. The generator state is the one left by
  \<^verbatim>\<open>generate_random_masks\<close>, since stage 3 draws from the global generator without reseeding.
\<close>

definition apply_structured_masking ::
  "'g np_env \<Rightarrow> real \<Rightarrow> string list \<Rightarrow> real list list \<Rightarrow> 'g \<Rightarrow> py_error + nat list" where
  "apply_structured_masking env missing_rate snp_list mask_sets g =
     (let n_snps = length snp_list
      in case scaled_count n_snps missing_rate of
           Inl e \<Rightarrow> Inl e
         | Inr n_to_mask \<Rightarrow>
             (let primary_mask = mask_sets ! 0;
                  primary_indices = py_slice_to n_to_mask (np_argsort env primary_mask);
                  secondary_mask = mask_sets ! 1;
                  secondary_selection = map (\<lambda>i. secondary_mask ! i) primary_indices;
                  masked_indices = stage2_select primary_indices secondary_selection;
                  remaining_needed = n_to_mask - int (length masked_indices)
              in if remaining_needed > 0 then
                   (let remaining_candidates = filter (\<lambda>i. i \<notin> set masked_indices) [0..<n_snps]
                    in if remaining_candidates \<noteq> [] then
                         (case np_choice env remaining_candidates
                                 (min remaining_needed (int (length remaining_candidates))) g of
                            Inl e \<Rightarrow> Inl e
                          | Inr (additional_indices, _) \<Rightarrow>
                              Inr (set_update additional_indices masked_indices))
                       else Inr masked_indices)
                 else Inr masked_indices))"

text \<open>\<^verbatim>\<open>np.mean\<close> and \<^verbatim>\<open>np.var\<close> over exact reals.\<close>

definition np_mean :: "real list \<Rightarrow> real" where
  "np_mean xs = sum_list xs / real (length xs)"

definition np_var :: "real list \<Rightarrow> real" where
  "np_var xs = np_mean (map (\<lambda>x. (x - np_mean xs) ^ 2) xs)"

text \<open>\<^verbatim>\<open>[int(snp.split('_')[1]) for snp in original_snps]\<close>, which raises on the first bad field.\<close>

fun parse_positions :: "string list \<Rightarrow> py_error + int list" where
  "parse_positions [] = Inr []"
| "parse_positions (snp # snps) =
     (case py_int (py_split_on CHR ''_'' snp ! 1) of
        None \<Rightarrow> Inl ValueError
      | Some p \<Rightarrow> (case parse_positions snps of Inl e \<Rightarrow> Inl e | Inr ps \<Rightarrow> Inr (p # ps)))"

definition spacings_of :: "int list \<Rightarrow> int list" where
  "spacings_of sorted_masked =
     map (\<lambda>i. sorted_masked ! (i + 1) - sorted_masked ! i) [0..<length sorted_masked - 1]"

text \<open>\<^verbatim>\<open>quantify_masking_strength\<close>\<close>

definition quantify_masking_strength :: "string list \<Rightarrow> nat list \<Rightarrow> py_error + real" where
  "quantify_masking_strength original_snps masked_indices =
     (let n_total = length original_snps; n_masked = length masked_indices
      in case parse_positions original_snps of
           Inl e \<Rightarrow> Inl e
         | Inr positions \<Rightarrow>
             (let masked_positions = map (\<lambda>i. positions ! i) masked_indices
              in if length masked_positions < 2 then Inr 0
                 else (let sorted_masked = sort masked_positions;
                           spacings = map real_of_int (spacings_of sorted_masked);
                           uniformity =
                             (if length spacings = 0 then 1
                              else (let mean_spacing = np_mean spacings;
                                        spacing_variance =
                                          (if mean_spacing > 0 then np_var spacings else 0)
                                    in 1 / (1 + spacing_variance / (mean_spacing ^ 2 + 1 / 10 ^ 10))))
                       in Inr ((real n_masked / real n_total) * uniformity))))"

record random_row = mask_row +
  row_stage1_val :: real
  row_stage2_val :: real
  row_stage3_val :: real
  row_qms :: real

definition random_mask_row :: "real list list \<Rightarrow> nat list \<Rightarrow> real \<Rightarrow> nat \<times> string \<Rightarrow> random_row" where
  "random_mask_row mask_sets masked_indices qms p =
     (case p of (i, snp) \<Rightarrow>
        (let chr_pos = py_split_on CHR ''_'' snp
         in \<lparr>row_chr = chr_pos ! 0, row_pos = chr_pos ! 1, row_snp_id = snp,
             row_masked = (i \<in> set masked_indices),
             row_stage1_val = (if i < length (mask_sets ! 0) then mask_sets ! 0 ! i else 0),
             row_stage2_val = (if i < length (mask_sets ! 1) then mask_sets ! 1 ! i else 0),
             row_stage3_val = (if i < length (mask_sets ! 2) then mask_sets ! 2 ! i else 0),
             row_qms = qms\<rparr>))"

text \<open>
  \<^verbatim>\<open>RandomMasking.create_mask_from_ld\<close>. The report that follows the QMS computation divides
  by \<^verbatim>\<open>len(snp_list)\<close> before the table is built.
\<close>

definition random_create_mask ::
  "'g np_env \<Rightarrow> real \<Rightarrow> nat \<Rightarrow> string list \<Rightarrow> int \<Rightarrow> random_row outcome" where
  "random_create_mask env missing_rate seed fl batch_size =
     (let snp_list = sorted_snps env (collect_snps batch_size fl);
          (mask_sets, g) = generate_random_masks env seed (length snp_list)
      in case apply_structured_masking env missing_rate snp_list mask_sets g of
           Inl e \<Rightarrow> Failed e None
         | Inr masked_indices \<Rightarrow>
             (case quantify_masking_strength snp_list masked_indices of
                Inl e \<Rightarrow> Failed e None
              | Inr qms \<Rightarrow>
                  if snp_list = [] then Failed ZeroDivisionError None
                  else (case pl_dataframe 8 (map (random_mask_row mask_sets masked_indices qms)
                                                 (zip [0..<length snp_list] snp_list)) of
                          Inl e \<Rightarrow> Failed e None
                        | Inr mask_df \<Rightarrow> Done mask_df)))"

text \<open>What NumPy guarantees of \<^verbatim>\<open>argsort\<close>: a permutation of the indices that sorts the scores.\<close>

definition argsort_ok :: "'g np_env \<Rightarrow> bool" where
  "argsort_ok env =
     (\<forall>xs. distinct (np_argsort env xs) \<and> set (np_argsort env xs) = {0..<length xs}
           \<and> sorted (map (\<lambda>i. xs ! i) (np_argsort env xs)))"



text \<open>The variant keys of the lines that pass the guard of the reader.\<close>

definition line_keys :: "string \<Rightarrow> string set" where
  "line_keys line =
     (case data_fields line of
        None \<Rightarrow> {}
      | Some parts \<Rightarrow> {snp_key parts 0 1, snp_key parts 3 4})"

text \<open>The variant keys of the lines that also pass the threshold test.\<close>

definition edge_keys :: "pyfloat \<Rightarrow> string \<Rightarrow> string set" where
  "edge_keys thr line =
     (case retained_edge thr line of None \<Rightarrow> {} | Some (a, b, r2) \<Rightarrow> {a, b})"

section \<open>MAF and cluster masking\<close>

subsection \<open>The Markov simulator of minor-allele frequencies\<close>

definition transition_matrix :: "real list list" where
  "transition_matrix = [[7 / 10, 3 / 10], [2 / 10, 8 / 10]]"

text \<open>The loop \<^verbatim>\<open>for i in range(1, n_snps)\<close>: each state is drawn from the row of the one before.\<close>

fun markov_states :: "'g np_env \<Rightarrow> nat \<Rightarrow> nat \<Rightarrow> 'g \<Rightarrow> nat list \<times> 'g" where
  "markov_states env 0 current_state g = ([], g)"
| "markov_states env (Suc k) current_state g =
     (let (next_state, g') = np_choice_p env (transition_matrix ! current_state) g;
          (rest, g'') = markov_states env k next_state g'
      in (next_state # rest, g''))"

text \<open>The emission loop: \<^verbatim>\<open>beta(1, 20)\<close> in state 0, \<^verbatim>\<open>beta(2, 2) * 0.5\<close> otherwise, capped at 0.5.\<close>

fun emit_maf :: "'g np_env \<Rightarrow> nat list \<Rightarrow> 'g \<Rightarrow> real list" where
  "emit_maf env [] g = []"
| "emit_maf env (state # states) g =
     (let (maf, g') =
            (if state = 0 then np_beta env 1 20 g
             else (let (b, g'') = np_beta env 2 2 g in (b * (1 / 2), g'')))
      in min maf (1 / 2) # emit_maf env states g')"

text \<open>
  \<^verbatim>\<open>simulate_maf\<close>. The first state is drawn before the loop, so the result has one value even
  for an empty list of variants.
\<close>

definition simulate_maf :: "'g np_env \<Rightarrow> string list \<Rightarrow> real list" where
  "simulate_maf env snp_positions =
     (let n_snps = length snp_positions;
          (s0, g1) = np_choice_p env [3 / 10, 7 / 10] (np_seed env 42);
          (rest, g2) = markov_states env (n_snps - 1) s0 g1
      in emit_maf env (s0 # rest) g2)"

text \<open>What NumPy guarantees of \<^verbatim>\<open>beta\<close>: a draw is not negative.\<close>

definition beta_ok :: "'g np_env \<Rightarrow> bool" where
  "beta_ok env = (\<forall>a b g. 0 \<le> fst (np_beta env a b g))"

subsection \<open>Clusters from the LD table\<close>

text \<open>
  The loader keeps the retained lines as a table \<^verbatim>\<open>ld_data\<close> with the seven text columns
  below. \<^verbatim>\<open>iter_rows(named=True)\<close> yields each row as a dictionary from column name to value,
  modelled as an association list.
\<close>

definition ld_columns :: "string list" where
  "ld_columns = [''CHR_A'', ''BP_A'', ''SNP_A'', ''CHR_B'', ''BP_B'', ''SNP_B'', ''R2'']"

type_synonym ld_row = "(string \<times> string) list"

definition ld_row_of :: "string list \<Rightarrow> ld_row" where
  "ld_row_of parts = zip ld_columns (take 7 parts)"

text \<open>
  The target list \<^verbatim>\<open>_, row\<close> of a \<^verbatim>\<open>for\<close> statement unpacks each item: the item is iterated
  (a dictionary yields its keys) and must give exactly two values.
\<close>

definition unpack_pair :: "'a list \<Rightarrow> py_error + ('a \<times> 'a)" where
  "unpack_pair xs = (case xs of [a, b] \<Rightarrow> Inr (a, b) | _ \<Rightarrow> Inl ValueError)"

text \<open>\<^verbatim>\<open>row['CHR_A']\<close> on a \<^verbatim>\<open>str\<close>: a string accepts integer and slice indices only.\<close>

definition str_getitem_str :: "string \<Rightarrow> string \<Rightarrow> py_error + string" where
  "str_getitem_str s key = Inl TypeError"

text \<open>\<^verbatim>\<open>np.eye(n)\<close> and \<^verbatim>\<open>1 - ld_matrix\<close>\<close>

definition np_eye :: "nat \<Rightarrow> real list list" where
  "np_eye n = map (\<lambda>i. map (\<lambda>j. if i = j then 1 else 0) [0..<n]) [0..<n]"

definition one_minus :: "real list list \<Rightarrow> real list list" where
  "one_minus m = map (map (\<lambda>x. 1 - x)) m"

text \<open>
  The loop \<^verbatim>\<open>for _, row in ld_data.iter_rows(named=True)\<close> over the LD table. Each item is a
  dictionary with the seven column names as keys, so binding it to \<^verbatim>\<open>_, row\<close> fails; were an
  item to have two keys, \<^verbatim>\<open>row\<close> would be the second key, a string, and the first statement
  of the body would index it with \<^verbatim>\<open>'CHR_A'\<close>. The matrix is returned unchanged when the table is
  empty.
\<close>

fun ld_loop :: "ld_row list \<Rightarrow> real list list \<Rightarrow> py_error + real list list" where
  "ld_loop [] ld_matrix = Inr ld_matrix"
| "ld_loop (item # items) ld_matrix =
     (case unpack_pair (map fst item) of
        Inl e \<Rightarrow> Inl e
      | Inr (u, row) \<Rightarrow>
          (case str_getitem_str row ''CHR_A'' of
             Inl e \<Rightarrow> Inl e
           | Inr v \<Rightarrow> ld_loop items ld_matrix))"

text \<open>
  \<^verbatim>\<open>AgglomerativeClustering(...).fit_predict(distance_matrix)\<close>: scikit-learn validates its
  input with a minimum of two samples before it clusters.
\<close>

definition fit_predict :: "'g np_env \<Rightarrow> nat \<Rightarrow> real list list \<Rightarrow> py_error + nat list" where
  "fit_predict env n_clusters distance_matrix =
     (if length distance_matrix < 2 then Inl ValueError
      else Inr (sk_fit_predict env n_clusters distance_matrix))"

text \<open>\<^verbatim>\<open>clusters[label].append(snp)\<close> on a \<^verbatim>\<open>defaultdict(list)\<close>, keys in insertion order.\<close>

fun cluster_append :: "(nat \<times> string list) list \<Rightarrow> nat \<Rightarrow> string \<Rightarrow> (nat \<times> string list) list" where
  "cluster_append [] label snp = [(label, [snp])]"
| "cluster_append ((k, v) # rest) label snp =
     (if k = label then (k, v @ [snp]) # rest else (k, v) # cluster_append rest label snp)"

definition group_clusters :: "nat list \<Rightarrow> string list \<Rightarrow> (nat \<times> string list) list" where
  "group_clusters cluster_labels snp_positions =
     foldl (\<lambda>clusters (i, label). cluster_append clusters label (snp_positions ! i))
           [] (zip [0..<length cluster_labels] cluster_labels)"

text \<open>\<^verbatim>\<open>create_ld_clusters\<close>\<close>

definition create_ld_clusters ::
  "'g np_env \<Rightarrow> nat \<Rightarrow> ld_row list \<Rightarrow> string list \<Rightarrow> py_error + (nat \<times> string list) list" where
  "create_ld_clusters env cluster_size_min ld_data snp_positions =
     (let n_snps = length snp_positions
      in case ld_loop ld_data (np_eye n_snps) of
           Inl e \<Rightarrow> Inl e
         | Inr ld_matrix \<Rightarrow>
             (let distance_matrix = one_minus ld_matrix;
                  n_clusters = max 2 (n_snps div 10)
              in case fit_predict env n_clusters distance_matrix of
                   Inl e \<Rightarrow> Inl e
                 | Inr cluster_labels \<Rightarrow>
                     Inr (filter (\<lambda>(k, v). cluster_size_min \<le> length v)
                                 (group_clusters cluster_labels snp_positions))))"

subsection \<open>The combined mask\<close>

text \<open>
  The loader. Within a batch, each retained line adds \<^verbatim>\<open>parts[:7]\<close> to \<^verbatim>\<open>batch_data\<close> and its
  two keys to \<^verbatim>\<open>unique_snps\<close>; after the batch, the frame built from \<^verbatim>\<open>batch_data\<close> is added to
  the LD table.
\<close>

record maf_batch_state =
  batch_data :: "string list list"
  batch_unique_snps :: "string list"

record maf_state =
  ld_rows :: "ld_row list"
  maf_unique_snps :: "string list"

definition maf_line :: "pyfloat \<Rightarrow> maf_batch_state \<Rightarrow> string \<Rightarrow> maf_batch_state" where
  "maf_line thr st line =
     (case data_fields line of
        None \<Rightarrow> st
      | Some parts \<Rightarrow>
          (case py_float (parts ! 6) of
             None \<Rightarrow> st
           | Some r2 \<Rightarrow>
               if py_ge r2 thr
               then \<lparr>batch_data = batch_data st @ [take 7 parts],
                     batch_unique_snps =
                       set_update [snp_key parts 0 1, snp_key parts 3 4] (batch_unique_snps st)\<rparr>
               else st))"

definition maf_batch :: "pyfloat \<Rightarrow> maf_state \<Rightarrow> string list \<Rightarrow> maf_state" where
  "maf_batch thr st batch =
     (let b = foldl (maf_line thr) \<lparr>batch_data = [], batch_unique_snps = maf_unique_snps st\<rparr> batch
      in \<lparr>ld_rows = ld_rows st @ map ld_row_of (pl_frame_text (batch_data b)),
          maf_unique_snps = batch_unique_snps b\<rparr>)"

definition maf_load :: "pyfloat \<Rightarrow> int \<Rightarrow> string list \<Rightarrow> maf_state" where
  "maf_load thr batch_size fl =
     foldl (maf_batch thr) \<lparr>ld_rows = [], maf_unique_snps = []\<rparr> (read_batches (nat batch_size) fl)"

record maf_row = mask_row +
  row_maf :: real
  row_is_rare :: bool
  row_cluster_id :: int

text \<open>\<^verbatim>\<open>snp_to_cluster.get(snp, -1)\<close>: a later cluster overwrites an earlier one.\<close>

definition cluster_id_of :: "(nat \<times> string list) list \<Rightarrow> string \<Rightarrow> int" where
  "cluster_id_of clusters snp =
     (case filter (\<lambda>(k, v). snp \<in> set v) clusters of
        [] \<Rightarrow> - 1
      | cs \<Rightarrow> int (fst (last cs)))"

definition maf_mask_row ::
  "real \<Rightarrow> real list \<Rightarrow> string list \<Rightarrow> (nat \<times> string list) list \<Rightarrow> nat \<times> string \<Rightarrow> maf_row" where
  "maf_mask_row maf_threshold maf_values masked_snps clusters p =
     (case p of (i, snp) \<Rightarrow>
        (let chr_pos = py_split_on CHR ''_'' snp
         in \<lparr>row_chr = chr_pos ! 0, row_pos = chr_pos ! 1, row_snp_id = snp,
             row_masked = (snp \<in> set masked_snps),
             row_maf = maf_values ! i,
             row_is_rare = (maf_values ! i < maf_threshold),
             row_cluster_id = cluster_id_of clusters snp\<rparr>))"

text \<open>
  Channel A of \<^verbatim>\<open>MAFClusterMasking.create_mask_from_ld\<close>: the sample of rare variants, drawn
  only when there are rare variants. The count \<^verbatim>\<open>int(len(rare_snps) * missing_rate * 2)\<close> is
  computed first, each product rounded to binary64.
\<close>

definition maf_select_rare :: "'g np_env \<Rightarrow> real \<Rightarrow> string list \<Rightarrow> py_error + string list" where
  "maf_select_rare env missing_rate rare_snps =
     (case round_binary64 (real (length rare_snps)) of
        Finite a \<Rightarrow>
          (case (case round_binary64 (a * missing_rate) of
                   Finite b \<Rightarrow> py_int_of_float (round_binary64 (b * 2))
                 | other \<Rightarrow> py_int_of_float other) of
             Inl e \<Rightarrow> Inl e
           | Inr n_maf_mask \<Rightarrow>
               if rare_snps \<noteq> [] then
                 (case np_choice env rare_snps (min n_maf_mask (int (length rare_snps)))
                         (np_seed env 42) of
                    Inl e \<Rightarrow> Inl e
                  | Inr (maf_masked, _) \<Rightarrow> Inr maf_masked)
               else Inr [])
      | other \<Rightarrow> Inl OverflowError)"

text \<open>Channel B: the sample of clusters is always drawn, with at least one cluster asked for.\<close>

definition maf_select_clusters ::
  "'g np_env \<Rightarrow> real \<Rightarrow> string list list \<Rightarrow> py_error + nat list" where
  "maf_select_clusters env missing_rate cluster_list =
     (case scaled_count (length cluster_list) missing_rate of
        Inl e \<Rightarrow> Inl e
      | Inr n \<Rightarrow>
          (let n_clusters_to_mask = max 1 n
           in case np_choice env [0..<length cluster_list] n_clusters_to_mask (np_seed env 43) of
                Inl e \<Rightarrow> Inl e
              | Inr (selected_clusters, _) \<Rightarrow> Inr selected_clusters))"

text \<open>\<^verbatim>\<open>MAFClusterMasking.create_mask_from_ld\<close>\<close>

definition maf_create_mask ::
  "'g np_env \<Rightarrow> real \<Rightarrow> real \<Rightarrow> pyfloat \<Rightarrow> nat \<Rightarrow> string list \<Rightarrow> int \<Rightarrow> maf_row outcome" where
  "maf_create_mask env maf_threshold missing_rate thr cluster_size_min fl batch_size =
     (let st = maf_load thr batch_size fl;
          ld_data = ld_rows st;
          snp_positions = sorted_snps env (maf_unique_snps st);
          maf_values = simulate_maf env snp_positions
      in case create_ld_clusters env cluster_size_min ld_data snp_positions of
           Inl e \<Rightarrow> Failed e None
         | Inr clusters \<Rightarrow>
             (let rare_snps = map snd (filter (\<lambda>(i, snp). maf_values ! i < maf_threshold)
                                              (zip [0..<length snp_positions] snp_positions));
                  cluster_list = map snd clusters
              in case maf_select_rare env missing_rate rare_snps of
                   Inl e \<Rightarrow> Failed e None
                 | Inr maf_masked \<Rightarrow>
                     (case maf_select_clusters env missing_rate cluster_list of
                        Inl e \<Rightarrow> Failed e None
                      | Inr selected_clusters \<Rightarrow>
                          (let masked_snps =
                                 foldl (\<lambda>masked cluster_idx.
                                          set_update (cluster_list ! cluster_idx) masked)
                                       (set_update maf_masked []) selected_clusters
                           in case pl_dataframe 7
                                     (map (maf_mask_row maf_threshold maf_values masked_snps clusters)
                                          (zip [0..<length snp_positions] snp_positions)) of
                                Inl e \<Rightarrow> Failed e None
                              | Inr mask_df \<Rightarrow> Done mask_df))))"

section \<open>Row-wise missingness\<close>

text \<open>\<^verbatim>\<open>f"SAMPLE_{i:04d}"\<close>: the decimal digits of \<open>i\<close>, padded with zeros to four places.\<close>

fun dec_digits :: "nat \<Rightarrow> nat \<Rightarrow> string" where
  "dec_digits 0 n = []"
| "dec_digits (Suc fuel) n =
     (if n < 10 then [char_of (48 + n)]
      else dec_digits fuel (n div 10) @ [char_of (48 + n mod 10)])"

definition sample_id :: "nat \<Rightarrow> string" where
  "sample_id i =
     (let ds = dec_digits (Suc i) i
      in ''SAMPLE_'' @ replicate (4 - length ds) CHR ''0'' @ ds)"

text \<open>
  \<^verbatim>\<open>simulate_sample_data\<close>: after seeding, one array of genotype calls per sample, drawn with
  probabilities 0.25, 0.5, 0.25; the dictionary \<^verbatim>\<open>genotype_data\<close> is an association list.
\<close>

fun draw_genotypes :: "'g np_env \<Rightarrow> nat \<Rightarrow> string list \<Rightarrow> 'g \<Rightarrow> (string \<times> int list) list" where
  "draw_genotypes env m [] g = []"
| "draw_genotypes env m (sid # sids) g =
     (let (genotypes, g') = np_choice_p_size env [1 / 4, 1 / 2, 1 / 4] m g
      in (sid, map int genotypes) # draw_genotypes env m sids g')"

definition simulate_sample_data ::
  "'g np_env \<Rightarrow> string list \<Rightarrow> nat \<Rightarrow> string list \<times> (string \<times> int list) list" where
  "simulate_sample_data env snp_list n_samples =
     (let sample_ids = map sample_id [0..<n_samples]
      in (sample_ids, draw_genotypes env (length snp_list) sample_ids (np_seed env 42)))"

datatype category = Low | Medium | High

record sample_info =
  n_total :: nat
  n_missing :: nat
  missingness_pct :: pyfloat
  info_category :: category
  high_missingness :: bool

text \<open>
  \<^verbatim>\<open>n_missing / len(snp_list)\<close> with a NumPy integer on the left: division by zero gives
  \<^verbatim>\<open>nan\<close> or an infinity instead of raising. Then the product with 100. Both results are
  rounded to binary64.
\<close>

definition np_true_divide :: "nat \<Rightarrow> nat \<Rightarrow> pyfloat" where
  "np_true_divide a b =
     (if b = 0 then (if a = 0 then NaN else PosInf) else round_binary64 (real a / real b))"

definition pf_times :: "pyfloat \<Rightarrow> real \<Rightarrow> pyfloat" where
  "pf_times x c = (case x of Finite y \<Rightarrow> round_binary64 (y * c) | other \<Rightarrow> other)"

text \<open>\<^verbatim>\<open>arr[missing_indices] = -9\<close>\<close>

definition set_missing :: "int list \<Rightarrow> nat list \<Rightarrow> int list" where
  "set_missing genotypes missing_indices =
     foldl (\<lambda>arr i. arr[i := - 9]) genotypes missing_indices"

text \<open>The missing rate of a sample is uniform on the range of its category.\<close>

definition draw_rate :: "'g np_env \<Rightarrow> category \<Rightarrow> 'g \<Rightarrow> real \<times> 'g" where
  "draw_rate env c g =
     (case c of
        Low \<Rightarrow> np_uniform env 0 (1 / 10) g
      | Medium \<Rightarrow> np_uniform env (1 / 10) (3 / 10) g
      | High \<Rightarrow> np_uniform env (3 / 10) (6 / 10) g)"

text \<open>
  The loop of \<^verbatim>\<open>apply_rowwise_missing_pattern\<close> over the samples, from sample \<open>i\<close> on. An
  index beyond the categories is an \<^verbatim>\<open>IndexError\<close>, a sample id that is not in the dictionary
  a \<^verbatim>\<open>KeyError\<close>.
\<close>

fun rowwise_loop ::
  "'g np_env \<Rightarrow> real \<Rightarrow> nat \<Rightarrow> category list \<Rightarrow> (string \<times> int list) list \<Rightarrow>
   nat \<Rightarrow> string list \<Rightarrow> 'g \<Rightarrow> py_error + (string \<times> sample_info) list" where
  "rowwise_loop env high_thr m cats genotype_data i [] g = Inr []"
| "rowwise_loop env high_thr m cats genotype_data i (sid # sids) g =
     (if length cats \<le> i then Inl IndexError
      else (case map_of genotype_data sid of
              None \<Rightarrow> Inl KeyError
            | Some original_genotypes \<Rightarrow>
                (let cat = cats ! i;
                     (sample_missing_rate, g1) = draw_rate env cat g
                 in case (case scaled_count m sample_missing_rate of
                            Inl e \<Rightarrow> Inl e
                          | Inr n_to_mask \<Rightarrow>
                              if n_to_mask > 0 then np_choice env [0..<m] n_to_mask g1
                              else Inr ([], g1)) of
                      Inl e \<Rightarrow> Inl e
                    | Inr (missing_indices, g2) \<Rightarrow>
                        (let masked_genotypes = set_missing original_genotypes missing_indices;
                             n_miss = length (filter (\<lambda>x. x = - 9) masked_genotypes);
                             pct = pf_times (np_true_divide n_miss m) 100;
                             info = \<lparr>n_total = m, n_missing = n_miss, missingness_pct = pct,
                                     info_category = cat,
                                     high_missingness = py_ge pct (round_binary64 (high_thr * 100))\<rparr>
                         in case rowwise_loop env high_thr m cats genotype_data (Suc i) sids g2 of
                              Inl e \<Rightarrow> Inl e
                            | Inr rest \<Rightarrow> Inr ((sid, info) # rest)))))"

text \<open>
  \<^verbatim>\<open>apply_rowwise_missing_pattern\<close>: reseed, lay out the categories by the fixed proportions,
  shuffle them, then run the loop.
\<close>

definition apply_rowwise_missing_pattern ::
  "'g np_env \<Rightarrow> real \<Rightarrow> string list \<Rightarrow> (string \<times> int list) list \<Rightarrow> string list \<Rightarrow>
   py_error + (string \<times> sample_info) list" where
  "apply_rowwise_missing_pattern env high_thr sample_ids genotype_data snp_list =
     (let g0 = np_seed env 42;
          n_samples = length sample_ids
      in case scaled_count n_samples (float_lit (7 / 10)) of
           Inl e \<Rightarrow> Inl e
         | Inr n_low \<Rightarrow>
             (case scaled_count n_samples (float_lit (2 / 10)) of
                Inl e \<Rightarrow> Inl e
              | Inr n_medium \<Rightarrow>
                  (let n_high = int n_samples - n_low - n_medium;
                       sample_categories =
                         replicate (nat n_low) Low @ replicate (nat n_medium) Medium
                           @ replicate (nat n_high) High;
                       (perm, g1) = np_shuffle env (length sample_categories) g0;
                       shuffled = map (\<lambda>j. sample_categories ! j) perm
                   in rowwise_loop env high_thr (length snp_list) shuffled genotype_data 0
                        sample_ids g1)))"

text \<open>
  \<^verbatim>\<open>np.mean\<close> and \<^verbatim>\<open>np.std\<close> of the missingness percentages. The percentages are all finite
  or, for an empty list of variants, all \<^verbatim>\<open>nan\<close>; a \<^verbatim>\<open>nan\<close> entry makes the result \<^verbatim>\<open>nan\<close>.
\<close>

definition finite_vals :: "pyfloat list \<Rightarrow> real list option" where
  "finite_vals xs =
     (if list_all (\<lambda>x. case x of Finite y \<Rightarrow> True | other \<Rightarrow> False) xs
      then Some (map (\<lambda>x. case x of Finite y \<Rightarrow> y | other \<Rightarrow> 0) xs) else None)"

definition pf_mean :: "pyfloat list \<Rightarrow> pyfloat" where
  "pf_mean xs = (case finite_vals xs of Some rs \<Rightarrow> Finite (np_mean rs) | None \<Rightarrow> NaN)"

definition pf_std :: "pyfloat list \<Rightarrow> pyfloat" where
  "pf_std xs = (case finite_vals xs of Some rs \<Rightarrow> Finite (sqrt (np_var rs)) | None \<Rightarrow> NaN)"

text \<open>
  \<^verbatim>\<open>assess_missing_patterns\<close>, as far as the table uses it: the coefficient of variation and
  the pattern type.
\<close>

definition pattern_type :: "(string \<times> sample_info) list \<Rightarrow> string" where
  "pattern_type sample_missingness =
     (let missingness_values = map (\<lambda>p. missingness_pct (snd p)) sample_missingness;
          mean_missingness = pf_mean missingness_values;
          std_missingness = pf_std missingness_values;
          cv = (case (mean_missingness, std_missingness) of
                  (Finite mu, Finite sd) \<Rightarrow> if mu > 0 then sd / mu else 0
                | other \<Rightarrow> 0)
      in if cv > 1 then ''MNAR'' else ''MAR'')"

record rowwise_row =
  rw_sample_id :: string
  rw_n_total :: nat
  rw_n_missing :: nat
  rw_missingness_pct :: pyfloat
  rw_category :: category
  rw_high_missingness :: bool
  rw_pattern_type :: string

fun rowwise_rows ::
  "(string \<times> sample_info) list \<Rightarrow> string \<Rightarrow> string list \<Rightarrow> py_error + rowwise_row list" where
  "rowwise_rows sample_missingness pat [] = Inr []"
| "rowwise_rows sample_missingness pat (sid # sids) =
     (case map_of sample_missingness sid of
        None \<Rightarrow> Inl KeyError
      | Some info \<Rightarrow>
          (case rowwise_rows sample_missingness pat sids of
             Inl e \<Rightarrow> Inl e
           | Inr rest \<Rightarrow>
               Inr (\<lparr>rw_sample_id = sid, rw_n_total = n_total info, rw_n_missing = n_missing info,
                     rw_missingness_pct = missingness_pct info, rw_category = info_category info,
                     rw_high_missingness = high_missingness info, rw_pattern_type = pat\<rparr> # rest)))"

text \<open>
  \<^verbatim>\<open>RowwiseMissingness.create_mask_from_ld\<close>, with its 1000 simulated samples. The statistics
  that the function returns beside the table enter the table through the pattern type.
\<close>

definition rowwise_create_mask ::
  "'g np_env \<Rightarrow> real \<Rightarrow> string list \<Rightarrow> int \<Rightarrow> rowwise_row outcome" where
  "rowwise_create_mask env high_thr fl batch_size =
     (let snp_list = sorted_snps env (collect_snps batch_size fl);
          (sample_ids, genotype_data) = simulate_sample_data env snp_list 1000
      in case apply_rowwise_missing_pattern env high_thr sample_ids genotype_data snp_list of
           Inl e \<Rightarrow> Failed e None
         | Inr sample_missingness \<Rightarrow>
             (case rowwise_rows sample_missingness (pattern_type sample_missingness) sample_ids of
                Inl e \<Rightarrow> Failed e None
              | Inr mask_data \<Rightarrow>
                  (case pl_dataframe 7 mask_data of
                     Inl e \<Rightarrow> Failed e None
                   | Inr mask_df \<Rightarrow> Done mask_df)))"

section \<open>A concrete environment\<close>

text \<open>
  An environment for evaluating the model on examples: sets are enumerated in reverse insertion
  order, the generator state is a counter, permutations are the identity, scores cycle through
  tenths, \<open>argsort\<close> is the stable one, and cluster labels go round-robin.
\<close>

definition stable_argsort :: "real list \<Rightarrow> nat list" where
  "stable_argsort xs = map snd (sort_key fst (zip xs [0..<length xs]))"

definition demo_env :: "nat np_env" where
  "demo_env =
     \<lparr>set_order = rev,
      np_seed = (\<lambda>s. s),
      np_permutation = (\<lambda>n g. ([0..<n], Suc g)),
      np_random = (\<lambda>n g. (map (\<lambda>i. real ((3 * i + g) mod 10) / 10) [0..<n], Suc g)),
      np_argsort = stable_argsort,
      np_choice_p = (\<lambda>p g. (g mod 2, Suc g)),
      np_choice_p_size = (\<lambda>p n g. (map (\<lambda>i. (i + g) mod 3) [0..<n], Suc g)),
      np_beta = (\<lambda>a b g. (\<bar>a\<bar> / (\<bar>a\<bar> + \<bar>b\<bar> + 1), Suc g)),
      np_uniform = (\<lambda>lo hi g. ((lo + hi) / 2, Suc g)),
      np_shuffle = (\<lambda>n g. (rev [0..<n], Suc g)),
      sk_fit_predict = (\<lambda>n_clusters dist. map (\<lambda>i. i mod n_clusters) [0..<length dist])\<rparr>"

section \<open>Properties of the rounding to binary64\<close>

lemma pow2_powi: "pow2 e = 2 powi e"
  by (simp add: pow2_def power_int_def power_one_over inverse_eq_divide)

lemma pow2_pos: "0 < pow2 e"
  by (simp add: pow2_powi)

lemma pow2_add: "pow2 (a + b) = pow2 a * pow2 b"
  by (simp add: pow2_powi power_int_add)

lemma pow2_succ: "pow2 (e + 1) = 2 * pow2 e"
  by (simp add: pow2_add) (simp add: pow2_def)

lemma pow2_mono: "a \<le> b \<Longrightarrow> pow2 a \<le> pow2 b"
  by (simp add: pow2_powi power_int_increasing)

lemma pow2_nat: "0 \<le> e \<Longrightarrow> pow2 e = of_int (2 ^ nat e)"
  by (simp add: pow2_def)

lemma pow2_inverse: "pow2 (- e) * pow2 e = 1"
  using pow2_add [of "- e" e] by (simp add: pow2_def)

lemma binade_le:
  "x < pow2 (53 - e) \<Longrightarrow> e \<le> 52 \<Longrightarrow> binade fuel x e \<le> 52"
proof (induction fuel x e rule: binade.induct)
  case (1 fuel x e)
  show ?case
  proof (cases "fuel = 0")
    case True
    with 1(4) show ?thesis by (subst binade.simps) simp
  next
    case f: False
    show ?thesis
    proof (cases "2 \<le> x")
      case True
      have "e \<noteq> 52"
      proof
        assume "e = 52"
        with 1(3) have "x < pow2 1" by simp
        with True show False by (simp add: pow2_def)
      qed
      with 1(4) have e: "e + 1 \<le> 52" by simp
      have "pow2 (53 - e) = 2 * pow2 (53 - (e + 1))"
        using pow2_succ [of "53 - (e + 1)"] by (simp add: algebra_simps)
      with 1(3) have "x / 2 < pow2 (53 - (e + 1))" by simp
      from 1(1) [OF f True this e] f True show ?thesis
        by (subst binade.simps) simp
    next
      case x2: False
      show ?thesis
      proof (cases "x < 1 \<and> - 1022 < e")
        case True
        have "pow2 (53 - (e - 1)) = 2 * pow2 (53 - e)"
          using pow2_succ [of "53 - e"] by (simp add: algebra_simps)
        with 1(3) have a: "x * 2 < pow2 (53 - (e - 1))" by simp
        from 1(4) have b: "e - 1 \<le> 52" by simp
        from 1(2) [OF f x2 True a b] f x2 True show ?thesis
          by (subst binade.simps) simp
      next
        case False
        with f x2 1(4) show ?thesis by (subst binade.simps) auto
      qed
    qed
  qed
qed

lemma round_half_even_int: "round_half_even (of_int k) = k"
  by (simp add: round_half_even_def)

lemma round_half_even_nonneg: "0 \<le> x \<Longrightarrow> 0 \<le> round_half_even x"
  by (auto simp: round_half_even_def Let_def)

lemma round_half_even_le: "x \<le> of_int k \<Longrightarrow> round_half_even x \<le> k"
proof (cases "x = of_int k")
  case True
  then show ?thesis by (simp add: round_half_even_int)
next
  case False
  assume "x \<le> of_int k"
  with False have "x < of_int k" by simp
  then have "\<lfloor>x\<rfloor> < k" by (simp add: floor_less_iff)
  then show ?thesis by (auto simp: round_half_even_def Let_def)
qed

text \<open>A non-negative number at most \<open>n < 2 ^ 53\<close> rounds to a float between 0 and \<open>n\<close>.\<close>

lemma round_binary64_bounds:
  assumes "0 \<le> x" and "x \<le> real n" and "n < 2 ^ 53"
  shows "\<exists>y. round_binary64 x = Finite y \<and> 0 \<le> y \<and> y \<le> real n
            \<and> (x = real n \<longrightarrow> y = real n)"
proof (cases "x = 0")
  case True
  then show ?thesis using assms(2) by (auto simp: round_binary64_def)
next
  case False
  with assms(1) have x: "0 < x" by simp
  define e where "e = binade 2200 x 0"
  define m where "m = round_half_even (x / pow2 (e - 52))"
  define y where "y = of_int m * pow2 (e - 52)"
  have "real n < 2 ^ 53" using assms(3) by (metis of_nat_less_iff of_nat_numeral of_nat_power)
  with assms(2) have "x < pow2 (53 - 0)" by (simp add: pow2_def)
  then have e: "e \<le> 52" unfolding e_def by (rule binade_le) simp
  define q where "q = int n * 2 ^ nat (52 - e)"
  have inv: "1 / pow2 (e - 52) = of_int (2 ^ nat (52 - e))"
  proof -
    have "pow2 (- (e - 52)) * pow2 (e - 52) = 1" by (rule pow2_inverse)
    moreover have "pow2 (- (e - 52)) = of_int (2 ^ nat (52 - e))"
      using e pow2_nat [of "52 - e"] by simp
    ultimately show ?thesis using pow2_pos [of "e - 52"] by (simp add: field_simps)
  qed
  have "real n / pow2 (e - 52) = real n * (1 / pow2 (e - 52))" by simp
  then have nq: "real n / pow2 (e - 52) = of_int q"
    unfolding inv by (simp add: q_def)
  have "x / pow2 (e - 52) \<le> real n / pow2 (e - 52)"
    using assms(2) pow2_pos [of "e - 52"] by (simp add: divide_right_mono)
  then have "m \<le> q" unfolding m_def nq by (rule round_half_even_le)
  then have "y \<le> of_int q * pow2 (e - 52)"
    unfolding y_def using pow2_pos [of "e - 52"] by simp
  also have "\<dots> = real n"
    using nq pow2_pos [of "e - 52"] by (simp add: field_simps)
  finally have yn: "y \<le> real n" .
  have "0 \<le> x / pow2 (e - 52)" using x pow2_pos [of "e - 52"] by simp
  then have "0 \<le> m" unfolding m_def by (rule round_half_even_nonneg)
  then have y0: "0 \<le> y" unfolding y_def using pow2_pos [of "e - 52"] by simp
  have "real n < 2 ^ 53" by fact
  also have "(2::real) ^ 53 \<le> 2 ^ 1024" by (rule power_increasing) simp_all
  finally have "y < pow2 1024" using yn by (simp add: pow2_def)
  then have r: "round_binary64 x = Finite y"
    using x by (simp add: round_binary64_def Let_def e_def [symmetric] m_def [symmetric] y_def [symmetric])
  have "y = real n" if "x = real n"
  proof -
    from that nq have "m = q" unfolding m_def by (simp add: round_half_even_int)
    then show ?thesis
      unfolding y_def using nq pow2_pos [of "e - 52"] by (simp add: field_simps)
  qed
  with r y0 yn show ?thesis by blast
qed

lemma round_binary64_nat: "n < 2 ^ 53 \<Longrightarrow> round_binary64 (real n) = Finite (real n)"
  using round_binary64_bounds [of "real n" n] by auto



text \<open>Evaluation of the rounding at a given number, one step at a time.\<close>

lemma round_binary64_eval:
  assumes "0 < x" and "binade 2200 x 0 = e"
    and "round_half_even (x / pow2 (e - 52)) = m"
    and "of_int m * pow2 (e - 52) < pow2 1024"
  shows "round_binary64 x = Finite (of_int m * pow2 (e - 52))"
  using assms by (simp add: round_binary64_def Let_def)

lemma rb_9_10: "round_binary64 (9 / 10) = Finite (8106479329266893 / 9007199254740992)"
proof -
  have b: "binade 2200 (9 / 10 :: real) 0 = - 1" by (simp add: binade.simps)
  have m: "round_half_even (9 / 10 / pow2 (- 1 - 52)) = 8106479329266893"
    by (simp add: pow2_def round_half_even_def)
  have o: "of_int 8106479329266893 * pow2 (- 1 - 52) < pow2 1024"
    by (simp add: pow2_def)
  show ?thesis
    using round_binary64_eval [OF _ b m o] by (simp add: pow2_def)
qed

lemma rb_17_20: "round_binary64 (17 / 20) = Finite (7656119366529843 / 9007199254740992)"
proof -
  have b: "binade 2200 (17 / 20 :: real) 0 = - 1" by (simp add: binade.simps)
  have m: "round_half_even (17 / 20 / pow2 (- 1 - 52)) = 7656119366529843"
    by (simp add: pow2_def round_half_even_def)
  have o: "of_int 7656119366529843 * pow2 (- 1 - 52) < pow2 1024"
    by (simp add: pow2_def)
  show ?thesis
    using round_binary64_eval [OF _ b m o] by (simp add: pow2_def)
qed

lemma rb_19_20: "round_binary64 (19 / 20) = Finite (4278419646001971 / 4503599627370496)"
proof -
  have b: "binade 2200 (19 / 20 :: real) 0 = - 1" by (simp add: binade.simps)
  have m: "round_half_even (19 / 20 / pow2 (- 1 - 52)) = 8556839292003942"
    by (simp add: pow2_def round_half_even_def)
  have o: "of_int 8556839292003942 * pow2 (- 1 - 52) < pow2 1024"
    by (simp add: pow2_def)
  show ?thesis
    using round_binary64_eval [OF _ b m o] by (simp add: pow2_def)
qed

lemma rb_1_2: "round_binary64 (1 / 2) = Finite (1 / 2)"
proof -
  have b: "binade 2200 (1 / 2 :: real) 0 = - 1" by (simp add: binade.simps)
  have m: "round_half_even (1 / 2 / pow2 (- 1 - 52)) = 4503599627370496"
    by (simp add: pow2_def round_half_even_def)
  have o: "of_int 4503599627370496 * pow2 (- 1 - 52) < pow2 1024"
    by (simp add: pow2_def)
  show ?thesis
    using round_binary64_eval [OF _ b m o] by (simp add: pow2_def)
qed

lemma rb_3_10: "round_binary64 (3 / 10) = Finite (5404319552844595 / 18014398509481984)"
proof -
  have b: "binade 2200 (3 / 10 :: real) 0 = - 2" by (simp add: binade.simps)
  have m: "round_half_even (3 / 10 / pow2 (- 2 - 52)) = 5404319552844595"
    by (simp add: pow2_def round_half_even_def)
  have o: "of_int 5404319552844595 * pow2 (- 2 - 52) < pow2 1024"
    by (simp add: pow2_def)
  show ?thesis
    using round_binary64_eval [OF _ b m o] by (simp add: pow2_def)
qed

lemma float_lit_3_10: "float_lit (3 / 10) = 5404319552844595 / 18014398509481984"
  by (simp add: float_lit_def rb_3_10)

text \<open>Evaluation of \<^verbatim>\<open>int(n * rate)\<close> from the rounded product.\<close>

lemma scaled_count_eval:
  "n < 2 ^ 53 \<Longrightarrow> round_binary64 (real n * rate) = Finite y \<Longrightarrow> scaled_count n rate = Inr (py_trunc y)"
  by (simp add: scaled_count_def round_binary64_nat)

lemma scaled_count_zero: "scaled_count 0 rate = Inr 0"
  by (simp add: scaled_count_def round_binary64_def py_trunc_def)

lemma scaled_count_4_half: "scaled_count 4 (1 / 2) = Inr 2"
proof -
  have "round_binary64 (real 4 * (1 / 2)) = Finite 2"
    using round_binary64_nat [of 2] by simp
  from scaled_count_eval [OF _ this] show ?thesis by (simp add: py_trunc_def)
qed




section \<open>Properties of the reader and of the neighbor graph\<close>

lemma read_batches_single:
  assumes "0 < n" and "ls \<noteq> []" and "length ls \<le> n"
  shows "read_batches n ls = [ls]"
proof -
  have "read_batches n [] = []" by (simp add: read_batches.simps)
  with assms show ?thesis by (subst read_batches.simps) simp
qed

lemma concat_read_batches: "0 < n \<Longrightarrow> concat (read_batches n ls) = ls"
proof (induction n ls rule: read_batches.induct)
  case (1 n ls)
  show ?case
  proof (cases "ls = []")
    case True
    then show ?thesis by (simp add: read_batches.simps)
  next
    case False
    with 1 show ?thesis
      by (subst read_batches.simps) simp
  qed
qed

lemma foldl_foldl_concat: "foldl (\<lambda>st b. foldl f st b) s bs = foldl f s (concat bs)"
  by (induction bs arbitrary: s) simp_all

lemma knn_load_lines:
  "0 < batch_size \<Longrightarrow> knn_load thr batch_size fl = foldl (knn_line thr) knn_init fl"
  by (simp add: knn_load_def foldl_foldl_concat concat_read_batches)

lemma neighbors_of_dd_append:
  "neighbors_of (dd_append g k x) v = neighbors_of g v @ (if k = v then [x] else [])"
  by (simp add: neighbors_of_def dd_append_def)

lemma neighbors_knn_line:
  "neighbors_of (snp_neighbors (knn_line thr st line)) v =
     neighbors_of (snp_neighbors st) v @
       (case retained_edge thr line of None \<Rightarrow> [] | Some e \<Rightarrow> edge_entries v e)"
  by (auto simp: knn_line_def edge_entries_def neighbors_of_dd_append split: option.splits)

lemma neighbors_foldl_knn_line:
  "neighbors_of (snp_neighbors (foldl (knn_line thr) st fl)) v =
     neighbors_of (snp_neighbors st) v @ concat (map (edge_entries v) (retained_edges thr fl))"
proof (induction fl arbitrary: st)
  case Nil
  then show ?case by (simp add: retained_edges_def)
next
  case (Cons l ls)
  show ?case
    by (simp add: Cons.IH neighbors_knn_line retained_edges_def List.map_filter_simps
        split: option.splits)
qed

lemma neighbors_knn_load:
  "0 < batch_size \<Longrightarrow>
   neighbors_of (snp_neighbors (knn_load thr batch_size fl)) v =
     concat (map (edge_entries v) (retained_edges thr fl))"
proof -
  have "neighbors_of (snp_neighbors knn_init) v = []"
    by (simp add: knn_init_def neighbors_of_def)
  then show ?thesis
    if "0 < batch_size" using that by (simp only: knn_load_lines neighbors_foldl_knn_line append_Nil)
qed

lemma neighbors_sort_neighbors:
  "neighbors_of (sort_neighbors g) v = sort_by_r2_desc (neighbors_of g v)"
  by (simp add: neighbors_of_def sort_neighbors_def sort_by_r2_desc_def split: option.splits)

lemma neighbors_knn_graph:
  "0 < batch_size \<Longrightarrow>
   neighbors_of (knn_graph thr batch_size fl) v =
     sort_by_r2_desc (concat (map (edge_entries v) (retained_edges thr fl)))"
  by (simp add: knn_graph_def neighbors_sort_neighbors neighbors_knn_load)

lemma set_sort_by_r2_desc: "set (sort_by_r2_desc xs) = set xs"
  by (simp add: sort_by_r2_desc_def)

lemma retained_edges_iff:
  "e \<in> set (retained_edges thr fl) \<longleftrightarrow> (\<exists>line \<in> set fl. retained_edge thr line = Some e)"
proof (induction fl)
  case Nil
  then show ?case by (simp add: retained_edges_def)
next
  case (Cons l ls)
  then show ?case
    by (cases "retained_edge thr l") (auto simp: retained_edges_def)
qed

lemmas parse_eval = py_split_def py_strip_def is_space_def data_fields_def retained_edge_def
  snp_key_def py_float_def strip_sign_def to_lower_def is_exp_char_def parse_number_def
  digitpart_def is_digit_def digits_val_def digit_val_def pow10_def rb_9_10 rb_17_20 rb_19_20 rb_1_2

lemma ex1: "retained_edge (Finite (4/5)) ''1 100 rs1 1 200 rs2 0.9'' = Some (''1_100'', ''1_200'', Finite (8106479329266893/9007199254740992))"
  by (simp add: parse_eval)

lemma retained_edge_ge: "retained_edge thr line = Some (a, b, r2) \<Longrightarrow> py_ge r2 thr"
  by (auto simp: retained_edge_def split: option.splits if_splits)

lemma py_ge_not_nan: "py_ge a b \<Longrightarrow> a \<noteq> NaN"
  by (cases a) auto

lemma pf_rank_le_iff: "a \<noteq> NaN \<Longrightarrow> b \<noteq> NaN \<Longrightarrow> pf_rank b \<le> pf_rank a \<longleftrightarrow> py_ge a b"
  by (cases a; cases b) auto

lemma pf_rank_inj: "pf_rank a = pf_rank b \<longleftrightarrow> a = b"
  by (cases a; cases b) auto

lemma sort_by_r2_desc_sorted_rank:
  "sorted_wrt (\<lambda>p q. pf_rank (snd q) \<le> pf_rank (snd p)) (sort_by_r2_desc xs)"
proof -
  have "sorted (map (\<lambda>p. pf_rank (snd p)) (sort_key (\<lambda>p. pf_rank (snd p)) (rev xs)))"
    by (rule sorted_sort_key)
  then have "sorted_wrt (\<lambda>p q. pf_rank (snd p) \<le> pf_rank (snd q))
               (sort_key (\<lambda>p. pf_rank (snd p)) (rev xs))"
    by (simp add: sorted_wrt_map)
  then show ?thesis
    by (simp add: sort_by_r2_desc_def sorted_wrt_rev)
qed

lemma sort_by_r2_desc_sorted:
  assumes "\<forall>p \<in> set xs. snd p \<noteq> NaN"
  shows "sorted_wrt (\<lambda>p q. py_ge (snd p) (snd q)) (sort_by_r2_desc xs)"
proof (rule sorted_wrt_mono_rel [OF _ sort_by_r2_desc_sorted_rank])
  fix p q
  assume "p \<in> set (sort_by_r2_desc xs)" "q \<in> set (sort_by_r2_desc xs)"
    and "pf_rank (snd q) \<le> pf_rank (snd p)"
  with assms show "py_ge (snd p) (snd q)"
    by (simp add: set_sort_by_r2_desc pf_rank_le_iff)
qed

lemma sort_by_r2_desc_stable:
  "filter (\<lambda>p. snd p = r) (sort_by_r2_desc xs) = filter (\<lambda>p. snd p = r) xs"
proof -
  have eq: "(\<lambda>p. snd p = r) = (\<lambda>p::string \<times> pyfloat. pf_rank (snd p) = pf_rank r)"
    by (simp add: pf_rank_inj)
  show ?thesis
    unfolding eq sort_by_r2_desc_def
    by (simp add: rev_filter [symmetric] sort_key_stable)
qed

lemma edge_entries_ge:
  "e \<in> set (retained_edges thr fl) \<Longrightarrow> p \<in> set (edge_entries v e) \<Longrightarrow> py_ge (snd p) thr"
  by (cases e) (auto simp: edge_entries_def retained_edges_iff dest: retained_edge_ge split: if_splits)

lemma set_set_add: "set (set_add x s) = insert x (set s)"
  by (auto simp: set_add_def)

lemma set_set_update: "set (set_update xs s) = set xs \<union> set s"
  unfolding set_update_def by (induction xs arbitrary: s) (auto simp: set_set_add)

lemma set_mask_seed:
  "set (mask_seed g k masked seed) =
     insert seed (fst ` set (py_slice_to k (neighbors_of g seed)) \<union> set masked)"
  by (simp add: mask_seed_def set_set_update set_set_add)

lemma set_foldl_mask_seed:
  "set (foldl (mask_seed g k) masked seeds) =
     set masked \<union> set seeds \<union> (\<Union>s \<in> set seeds. fst ` set (py_slice_to k (neighbors_of g s)))"
  by (induction seeds arbitrary: masked) (auto simp: set_mask_seed)

lemma set_knn_masked:
  "set (knn_masked g k seeds) =
     set seeds \<union> (\<Union>s \<in> set seeds. fst ` set (py_slice_to k (neighbors_of g s)))"
  by (simp add: knn_masked_def set_foldl_mask_seed)

lemma ex2: "retained_edge (Finite (4/5)) ''1 200 rs2 1 100 rs1 0.9'' = Some (''1_200'', ''1_100'', Finite (8106479329266893/9007199254740992))"
  by (simp add: parse_eval)

lemma ex3: "retained_edge (Finite (4/5)) ''1 100 rs1 1 300 rs3 0.85'' = Some (''1_100'', ''1_300'', Finite (7656119366529843/9007199254740992))"
  by (simp add: parse_eval)

lemma ex4: "retained_edge (Finite (4/5)) ''1 100 rs1 1 400 rs4 0.95'' = Some (''1_100'', ''1_400'', Finite (4278419646001971/4503599627370496))"
  by (simp add: parse_eval)

lemma ex5: "retained_edge (Finite (4/5)) ''1 200 rs2 1 300 rs3 0.5'' = None"
  by (simp add: parse_eval)

lemma ex6: "retained_edge (Finite (4/5)) ''CHR_A BP_A SNP_A CHR_B BP_B SNP_B R2'' = None"
  by (simp add: parse_eval)

lemma length_filter_sort_by_r2_desc:
  "length (filter P (sort_by_r2_desc xs)) = length (filter P xs)"
proof -
  have "length (filter P (sort_by_r2_desc xs))
        = length (filter P (sort_key (\<lambda>p. pf_rank (snd p)) (rev xs)))"
    by (simp add: sort_by_r2_desc_def rev_filter [symmetric])
  also have "\<dots> = length (filter P (rev xs))"
    by (simp add: filter_sort)
  also have "\<dots> = length (filter P xs)"
    by (simp add: rev_filter [symmetric])
  finally show ?thesis .
qed

lemma count_edge_entries:
  "a \<noteq> b \<Longrightarrow> length (filter (\<lambda>p. fst p = b) (edge_entries a e)) = (if records_pair a b e then 1 else 0)"
  by (cases e) (auto simp: edge_entries_def records_pair_def)

lemma count_concat_entries:
  "a \<noteq> b \<Longrightarrow> length (filter (\<lambda>p. fst p = b) (concat (map (edge_entries a) es)))
     = length (filter (records_pair a b) es)"
  by (induction es) (simp_all add: count_edge_entries)

lemma eval_nb_1:
  "neighbors_of (knn_graph (Finite (4/5)) 10000
      [''1 100 rs1 1 200 rs2 0.9'', ''1 200 rs2 1 100 rs1 0.9'', ''1 100 rs1 1 300 rs3 0.85'']) ''1_100''
   = [(''1_200'', Finite (8106479329266893/9007199254740992)), (''1_200'', Finite (8106479329266893/9007199254740992)), (''1_300'', Finite (7656119366529843/9007199254740992))]"
  by (simp add: neighbors_knn_graph retained_edges_def ex1 ex2 ex3 edge_entries_def sort_by_r2_desc_def)

lemma eval_nb_2:
  "neighbors_of (knn_graph (Finite (4/5)) 10000
      [''1 100 rs1 1 300 rs3 0.85'', ''1 100 rs1 1 400 rs4 0.95'', ''1 200 rs2 1 300 rs3 0.5'']) ''1_100''
   = [(''1_400'', Finite (4278419646001971/4503599627370496)), (''1_300'', Finite (7656119366529843/9007199254740992))]"
  by (simp add: neighbors_knn_graph retained_edges_def ex3 ex4 ex5 edge_entries_def sort_by_r2_desc_def)

section \<open>Properties of the threshold filters\<close>















section \<open>Properties of the random strategy\<close>

lemma distinct_set_add: "distinct s \<Longrightarrow> distinct (set_add x s)"
  by (simp add: set_add_def)

lemma distinct_set_update: "distinct s \<Longrightarrow> distinct (set_update xs s)"
  unfolding set_update_def by (induction xs arbitrary: s) (simp_all add: distinct_set_add)

lemma perm_length:
  assumes "distinct p" and "set p = {0..<n}"
  shows "length p = n"
  using assms distinct_card [of p] by simp

lemma np_choice_ok:
  assumes "permutation_ok env" and "0 \<le> k" and "k \<le> int (length a)" and "distinct a"
  shows "\<exists>xs g'. np_choice env a k g = Inr (xs, g') \<and> distinct xs \<and> set xs \<subseteq> set a
           \<and> length xs = nat k"
proof -
  obtain p g' where pg: "np_permutation env (length a) g = (p, g')"
    by (cases "np_permutation env (length a) g")
  from assms(1) pg have p: "distinct p" "set p = {0..<length a}"
    unfolding permutation_ok_def by (metis fst_conv)+
  then have lp: "length p = length a" by (rule perm_length)
  let ?xs = "map (\<lambda>i. a ! i) (take (nat k) p)"
  have eq: "np_choice env a k g = Inr (?xs, g')"
    using assms(2,3) pg by (simp add: np_choice_def)
  have inr: "\<forall>i \<in> set (take (nat k) p). i < length a"
    using p(2) set_take_subset [of "nat k" p] by auto
  have "inj_on (nth a) (set (take (nat k) p))"
    using assms(4) inr by (rule inj_on_nth)
  then have d: "distinct ?xs"
    using p(1) by (simp add: distinct_map)
  have s: "set ?xs \<subseteq> set a"
    using inr by auto
  have l: "length ?xs = nat k"
    using assms(2,3) lp by simp
  from eq d s l show ?thesis by blast
qed

lemma first_index_nth: "x \<in> set xs \<Longrightarrow> xs ! first_index xs x = x"
proof -
  assume "x \<in> set xs"
  then have "length (takeWhile (\<lambda>y. y \<noteq> x) xs) < length xs"
    by (induction xs) auto
  from nth_length_takeWhile [OF this] show ?thesis
    by (simp add: first_index_def)
qed

lemma first_index_less: "x \<in> set xs \<Longrightarrow> first_index xs x < length xs"
  unfolding first_index_def by (induction xs) auto

lemma foldl_select:
  "set (foldl (\<lambda>masked idx. if Q idx then set_add idx masked else masked) acc xs)
     = set acc \<union> {x \<in> set xs. Q x}
   \<and> (distinct acc \<longrightarrow> distinct (foldl (\<lambda>masked idx. if Q idx then set_add idx masked else masked) acc xs))"
  by (induction xs arbitrary: acc) (auto simp: set_set_add distinct_set_add)

lemma stage2_select_eq:
  "stage2_select prim (map f prim)
     = foldl (\<lambda>masked idx. if f idx > float_lit (3 / 10) then set_add idx masked else masked) [] prim"
  unfolding stage2_select_def
  by (rule foldl_cong) (simp_all add: first_index_nth first_index_less)

lemma foldl_select_filter:
  "distinct xs \<Longrightarrow> set acc \<inter> set xs = {} \<Longrightarrow>
   foldl (\<lambda>masked idx. if Q idx then set_add idx masked else masked) acc xs = acc @ filter Q xs"
  by (induction xs arbitrary: acc) (auto simp: set_add_def)

text \<open>Stage 2 on a list of distinct indices is the filter by the stage-2 score.\<close>

lemma stage2_select_filter:
  "distinct prim \<Longrightarrow>
   stage2_select prim (map f prim) = filter (\<lambda>i. f i > float_lit (3 / 10)) prim"
  by (simp add: stage2_select_eq foldl_select_filter)

lemma set_update_append:
  "distinct xs \<Longrightarrow> set xs \<inter> set s = {} \<Longrightarrow> set_update xs s = s @ xs"
  unfolding set_update_def
proof (induction xs arbitrary: s)
  case Nil
  then show ?case by simp
next
  case (Cons x xs)
  from Cons.prems have a: "x \<notin> set s" "distinct xs" "set xs \<inter> set (s @ [x]) = {}"
    by auto
  from a(1) have "foldl (\<lambda>acc x. set_add x acc) s (x # xs) = foldl (\<lambda>acc x. set_add x acc) (s @ [x]) xs"
    by (simp add: set_add_def)
  also have "\<dots> = (s @ [x]) @ xs"
    using a(2,3) by (rule Cons.IH)
  finally show ?case by simp
qed

lemma argsort_lowest:
  assumes "distinct p" and "set p = {0..<n::nat}" and "sorted (map f p)"
    and "i \<in> set (take t p)" and "j < n" and "j \<notin> set (take t p)"
  shows "f i \<le> (f j :: real)"
proof -
  from assms(4) obtain a where a: "a < length (take t p)" "take t p ! a = i"
    by (auto simp: in_set_conv_nth)
  then have a': "a < t" "a < length p" "p ! a = i" by simp_all
  from assms(2,5) have "j \<in> set p" by simp
  then obtain b where b: "b < length p" "p ! b = j"
    by (auto simp: in_set_conv_nth)
  have "t \<le> b"
  proof (rule ccontr)
    assume "\<not> t \<le> b"
    then have "b < t" by simp
    with b have "j \<in> set (take t p)"
      by (auto simp: in_set_conv_nth intro!: exI [of _ b])
    with assms(6) show False by contradiction
  qed
  with a'(1) have "a \<le> b" by simp
  with assms(3) b(1) have "map f p ! a \<le> map f p ! b"
    by (simp add: sorted_iff_nth_mono)
  with a' b show ?thesis by simp
qed

section \<open>The concrete environment meets the guarantees\<close>

lemma order_ok_demo: "order_ok demo_env"
  by (simp add: order_ok_def demo_env_def)

lemma permutation_ok_demo: "permutation_ok demo_env"
  by (simp add: permutation_ok_def demo_env_def)

lemma zip_upt_fst: "p \<in> set (zip xs [0..<length xs]) \<Longrightarrow> xs ! snd p = fst p"
  by (cases p) (auto simp: set_zip)

lemma stable_argsort_ok:
  "distinct (stable_argsort xs) \<and> set (stable_argsort xs) = {0..<length xs}
   \<and> sorted (map (\<lambda>i. xs ! i) (stable_argsort xs))"
proof -
  let ?z = "zip xs [0..<length xs]"
  let ?s = "sort_key fst ?z"
  have "distinct ?z" by (rule distinct_zipI2 [OF distinct_upt])
  then have ds: "distinct ?s" by simp
  have inj: "inj_on snd (set ?z)"
    by (auto simp: inj_on_def set_zip)
  have d: "distinct (stable_argsort xs)"
    using ds inj by (simp add: stable_argsort_def distinct_map)
  have msz: "map snd ?z = [0..<length xs]"
    by (simp add: map_snd_zip)
  have "set (stable_argsort xs) = snd ` set ?z"
    by (simp add: stable_argsort_def)
  also have "\<dots> = set (map snd ?z)"
    by (simp only: set_map)
  also have "\<dots> = {0..<length xs}"
    by (simp only: msz set_upt)
  finally have s: "set (stable_argsort xs) = {0..<length xs}" .
  have "map (\<lambda>i. xs ! i) (stable_argsort xs) = map fst ?s"
    by (simp add: stable_argsort_def zip_upt_fst)
  then have o: "sorted (map (\<lambda>i. xs ! i) (stable_argsort xs))"
    by (simp add: sorted_sort_key)
  from d s o show ?thesis by blast
qed

lemma argsort_ok_demo: "argsort_ok demo_env"
  using stable_argsort_ok by (simp add: argsort_ok_def demo_env_def)

lemma demo_argsort: "np_argsort demo_env [9/10, 1/10, 1/2, 1/5] = [1, 3, 2, 0]"
  by (simp add: demo_env_def stable_argsort_def)

section \<open>Properties of the MAF simulator and of the cluster loop\<close>

lemma beta_ok_demo: "beta_ok demo_env"
  by (simp add: beta_ok_def demo_env_def)

lemma emit_maf_bounds:
  "beta_ok env \<Longrightarrow> x \<in> set (emit_maf env states g) \<Longrightarrow> 0 \<le> x \<and> x \<le> 1 / 2"
proof (induction states arbitrary: g)
  case Nil
  then show ?case by simp
next
  case (Cons s ss)
  have b: "0 \<le> fst (np_beta env a b g)" for a b
    using Cons.prems(1) by (simp add: beta_ok_def)
  show ?case
  proof (cases "s = 0")
    case True
    obtain m g' where e: "np_beta env 1 20 g = (m, g')" by (cases "np_beta env 1 20 g")
    with b [of 1 20] have "0 \<le> m" by simp
    with Cons True e show ?thesis by (auto simp: min_def)
  next
    case False
    obtain m g' where e: "np_beta env 2 2 g = (m, g')" by (cases "np_beta env 2 2 g")
    with b [of 2 2] have "0 \<le> m" by simp
    with Cons False e show ?thesis by (auto simp: min_def)
  qed
qed

lemma length_emit_maf: "length (emit_maf env states g) = length states"
  by (induction states arbitrary: g) (auto simp: Let_def split: prod.splits)

lemma length_markov_states: "length (fst (markov_states env k s g)) = k"
proof (induction k arbitrary: s g)
  case 0
  then show ?case by simp
next
  case (Suc k)
  obtain nx g' where a: "np_choice_p env (transition_matrix ! s) g = (nx, g')"
    by (cases "np_choice_p env (transition_matrix ! s) g")
  obtain rest g'' where b: "markov_states env k nx g' = (rest, g'')"
    by (cases "markov_states env k nx g'")
  from Suc [of nx g'] b have "length rest = k" by simp
  with a b show ?case by simp
qed

lemma demo_maf: "simulate_maf demo_env [''1_100'', ''1_200''] = [1 / 22, 1 / 5]"
  by (simp add: simulate_maf_def demo_env_def transition_matrix_def)

lemma np_choice_empty: "np_choice env [] 0 g = Inr ([], snd (np_permutation env 0 g))"
  by (simp add: np_choice_def split: prod.splits)

lemma ld_loop_seven_keys:
  "length item = 7 \<Longrightarrow> ld_loop (item # items) m = Inl ValueError"
proof -
  assume "length item = 7"
  then obtain a r1 where 1: "map fst item = a # r1" "length r1 = 6"
    by (cases "map fst item") auto
  then obtain b r2 where 2: "r1 = b # r2" "length r2 = 5"
    by (cases r1) auto
  then obtain c r3 where 3: "r2 = c # r3"
    by (cases r2) auto
  from 1 2 3 show ?thesis by (simp add: unpack_pair_def)
qed

lemma length_ld_row_of: "7 \<le> length parts \<Longrightarrow> length (ld_row_of parts) = 7"
  by (simp add: ld_row_of_def ld_columns_def)

lemma maf_load_single:
  "0 < batch_size \<Longrightarrow> fl \<noteq> [] \<Longrightarrow> int (length fl) \<le> batch_size \<Longrightarrow>
   maf_load thr batch_size fl = maf_batch thr \<lparr>ld_rows = [], maf_unique_snps = []\<rparr> fl"
  by (simp add: maf_load_def read_batches_single)

lemma ex9: "data_fields ''1 100 rs1 1 200 rs2 0.9'' = Some [''1'', ''100'', ''rs1'', ''1'', ''200'', ''rs2'', ''0.9'']"
  by (simp add: parse_eval)

lemma ex10: "py_float ''0.9'' = Some (Finite (8106479329266893/9007199254740992))"
  by (simp add: parse_eval)

lemma ex11: "data_fields ''1 200 rs2 1 300 rs3 0.5'' = Some [''1'', ''200'', ''rs2'', ''1'', ''300'', ''rs3'', ''0.5'']"
  by (simp add: parse_eval)

lemma ex12: "py_float ''0.5'' = Some (Finite (1/2))"
  by (simp add: parse_eval)

lemma ex13: "data_fields ''CHR_A BP_A SNP_A CHR_B BP_B SNP_B R2'' = None"
  by (simp add: parse_eval)

section \<open>Properties of the key column of the mask tables\<close>

lemma sorted_snps_props:
  assumes "order_ok env" and "distinct u"
  shows "sorted (sorted_snps env u)" and "distinct (sorted_snps env u)"
    and "set (sorted_snps env u) = set u"
  using assms by (simp_all add: sorted_snps_def order_ok_def)

lemma collect_line_props:
  "distinct u \<Longrightarrow> distinct (collect_line u l) \<and> set (collect_line u l) = set u \<union> line_keys l"
  by (auto simp: collect_line_def line_keys_def set_set_update distinct_set_update split: option.splits)



lemma knn_line_unique:
  "distinct (unique_snps st) \<Longrightarrow>
   distinct (unique_snps (knn_line thr st l))
   \<and> set (unique_snps (knn_line thr st l)) = set (unique_snps st) \<union> edge_keys thr l"
  by (auto simp: knn_line_def edge_keys_def set_set_update distinct_set_update split: option.splits)















lemma length_split_on_aux:
  "length (split_on_aux d cur s) = Suc (length (filter (\<lambda>c. c = d) s))"
  by (induction s arbitrary: cur) simp_all

lemma key_split_length: "2 \<le> length (py_split_on CHR ''_'' (snp_key parts i j))"
  by (simp add: py_split_on_def snp_key_def length_split_on_aux)

section \<open>Independence of the enumeration order of sets\<close>

lemma sorted_snps_order_irrelevant:
  assumes "order_ok env" and "order_ok env'" and "distinct u"
  shows "sorted_snps env' u = sorted_snps env u"
proof (rule sorted_distinct_set_unique)
  show "sorted (sorted_snps env' u)" "distinct (sorted_snps env' u)"
    using sorted_snps_props [OF assms(2,3)] by simp_all
  show "sorted (sorted_snps env u)" "distinct (sorted_snps env u)"
    using sorted_snps_props [OF assms(1,3)] by simp_all
  show "set (sorted_snps env' u) = set (sorted_snps env u)"
    using sorted_snps_props [OF assms(1,3)] sorted_snps_props [OF assms(2,3)] by simp
qed

lemma distinct_foldl_batches:
  assumes step: "\<And>u l. distinct (sel u) \<Longrightarrow> distinct (sel (f u l))"
  shows "distinct (sel u) \<Longrightarrow> distinct (sel (foldl (\<lambda>u b. foldl f u b) u bs))"
proof -
  have inner: "distinct (sel u) \<Longrightarrow> distinct (sel (foldl f u b))" for u b
    by (induction b arbitrary: u) (simp_all add: step)
  show "distinct (sel u) \<Longrightarrow> distinct (sel (foldl (\<lambda>u b. foldl f u b) u bs))"
    by (induction bs arbitrary: u) (simp_all add: inner)
qed

lemma distinct_collect_snps: "distinct (collect_snps bs fl)"
  unfolding collect_snps_def
  by (rule distinct_foldl_batches [where sel = "\<lambda>u. u"]) (simp_all add: collect_line_props)

lemma distinct_knn_unique: "distinct (unique_snps (knn_load thr bs fl))"
  unfolding knn_load_def
  by (rule distinct_foldl_batches [where sel = unique_snps])
     (simp_all add: knn_line_unique knn_init_def)

lemma maf_line_unique:
  "distinct (batch_unique_snps st) \<Longrightarrow> distinct (batch_unique_snps (maf_line thr st l))"
  by (auto simp: maf_line_def distinct_set_update split: option.splits)

lemma maf_batch_unique:
  "distinct (maf_unique_snps st) \<Longrightarrow> distinct (maf_unique_snps (maf_batch thr st b))"
proof -
  have "distinct (batch_unique_snps u) \<Longrightarrow> distinct (batch_unique_snps (foldl (maf_line thr) u b))" for u
    by (induction b arbitrary: u) (simp_all add: maf_line_unique)
  then show "distinct (maf_unique_snps st) \<Longrightarrow> distinct (maf_unique_snps (maf_batch thr st b))"
    by (simp add: maf_batch_def Let_def)
qed

lemma distinct_maf_unique: "distinct (maf_unique_snps (maf_load thr bs fl))"
proof -
  have "distinct (maf_unique_snps st) \<Longrightarrow> distinct (maf_unique_snps (foldl (maf_batch thr) st bs))"
    for st and bs :: "string list list"
    by (induction bs arbitrary: st) (simp_all add: maf_batch_unique)
  then show ?thesis by (simp add: maf_load_def)
qed

lemmas branch_congs = if_cong sum.case_cong prod.case_cong option.case_cong pyfloat.case_cong

lemma np_choice_order:
  "np_choice (env\<lparr>set_order := so\<rparr>) a k g = np_choice env a k g"
  by (simp add: np_choice_def)

lemma generate_random_masks_order:
  "generate_random_masks (env\<lparr>set_order := so\<rparr>) seed n = generate_random_masks env seed n"
  by (simp add: generate_random_masks_def cong: branch_congs)

lemma apply_structured_masking_order:
  "apply_structured_masking (env\<lparr>set_order := so\<rparr>) rate xs ms g
     = apply_structured_masking env rate xs ms g"
  by (simp add: apply_structured_masking_def np_choice_order cong: branch_congs)

lemma markov_states_order:
  "markov_states (env\<lparr>set_order := so\<rparr>) k s g = markov_states env k s g"
  by (induction k arbitrary: s g) (simp_all cong: branch_congs)

lemma emit_maf_order:
  "emit_maf (env\<lparr>set_order := so\<rparr>) states g = emit_maf env states g"
  by (induction states arbitrary: g) (simp_all cong: branch_congs)

lemma simulate_maf_order:
  "simulate_maf (env\<lparr>set_order := so\<rparr>) xs = simulate_maf env xs"
  by (simp add: simulate_maf_def markov_states_order emit_maf_order cong: branch_congs
      del: emit_maf.simps)

lemma fit_predict_order:
  "fit_predict (env\<lparr>set_order := so\<rparr>) n d = fit_predict env n d"
  by (simp add: fit_predict_def)

lemma create_ld_clusters_order:
  "create_ld_clusters (env\<lparr>set_order := so\<rparr>) c ld xs = create_ld_clusters env c ld xs"
  by (simp add: create_ld_clusters_def fit_predict_order cong: branch_congs)

lemma maf_select_rare_order:
  "maf_select_rare (env\<lparr>set_order := so\<rparr>) rate rs = maf_select_rare env rate rs"
  by (simp add: maf_select_rare_def np_choice_order cong: branch_congs)

lemma maf_select_clusters_order:
  "maf_select_clusters (env\<lparr>set_order := so\<rparr>) rate cs = maf_select_clusters env rate cs"
  by (simp add: maf_select_clusters_def np_choice_order cong: branch_congs)

lemma draw_genotypes_order:
  "draw_genotypes (env\<lparr>set_order := so\<rparr>) m sids g = draw_genotypes env m sids g"
  by (induction sids arbitrary: g) (simp_all cong: branch_congs)

lemma simulate_sample_data_order:
  "simulate_sample_data (env\<lparr>set_order := so\<rparr>) xs n = simulate_sample_data env xs n"
  by (simp add: simulate_sample_data_def draw_genotypes_order cong: branch_congs)

lemma draw_rate_order:
  "draw_rate (env\<lparr>set_order := so\<rparr>) c g = draw_rate env c g"
  by (cases c) (simp_all add: draw_rate_def)

lemma rowwise_loop_order:
  "rowwise_loop (env\<lparr>set_order := so\<rparr>) thr m cats gd i sids g = rowwise_loop env thr m cats gd i sids g"
  by (induction sids arbitrary: i g)
     (simp_all add: draw_rate_order np_choice_order cong: branch_congs)

lemma apply_rowwise_order:
  "apply_rowwise_missing_pattern (env\<lparr>set_order := so\<rparr>) thr sids gd xs
     = apply_rowwise_missing_pattern env thr sids gd xs"
  by (simp add: apply_rowwise_missing_pattern_def rowwise_loop_order cong: branch_congs)

lemma order_ok_demo_insertion: "order_ok (demo_env\<lparr>set_order := (\<lambda>xs. xs)\<rparr>)"
  by (simp add: order_ok_def)

section \<open>The claims about the neighbor graph and k-nearest masking\<close>

text \<open>
  Claim C3 (symmetry). Every line that the k-nearest loader retains as an edge \<open>(a, b, r2)\<close>
  leaves, after the graph has been built and sorted, the pair \<open>(b, r2)\<close> in the neighbor list of
  \<open>a\<close> and the pair \<open>(a, r2)\<close> in the neighbor list of \<open>b\<close>. The batch size is positive, so that
  the reader visits the file at all.
\<close>

theorem knn_symmetry:
  assumes "0 < batch_size" and "line \<in> set fl" and "retained_edge thr line = Some (a, b, r2)"
  shows "(b, r2) \<in> set (neighbors_of (knn_graph thr batch_size fl) a)
       \<and> (a, r2) \<in> set (neighbors_of (knn_graph thr batch_size fl) b)"
proof -
  have e: "(a, b, r2) \<in> set (retained_edges thr fl)"
    using assms(2,3) by (auto simp: retained_edges_iff)
  have "(b, r2) \<in> set (edge_entries a (a, b, r2))" "(a, r2) \<in> set (edge_entries b (a, b, r2))"
    by (simp_all add: edge_entries_def)
  with e show ?thesis
    using assms(1) by (auto simp: neighbors_knn_graph set_sort_by_r2_desc)
qed

theorem knn_symmetry_witness:
  "(0::int) < 10000
   \<and> ''1 100 rs1 1 200 rs2 0.9'' \<in> set [''1 100 rs1 1 200 rs2 0.9'', ''1 200 rs2 1 300 rs3 0.5'']
   \<and> retained_edge (Finite (4/5)) ''1 100 rs1 1 200 rs2 0.9'' = Some (''1_100'', ''1_200'', Finite (8106479329266893/9007199254740992))
   \<and> (''1_200'', Finite (8106479329266893/9007199254740992)) \<in> set (neighbors_of
         (knn_graph (Finite (4/5)) 10000 [''1 100 rs1 1 200 rs2 0.9'', ''1 200 rs2 1 300 rs3 0.5''])
         ''1_100'')
   \<and> (''1_100'', Finite (8106479329266893/9007199254740992)) \<in> set (neighbors_of
         (knn_graph (Finite (4/5)) 10000 [''1 100 rs1 1 200 rs2 0.9'', ''1 200 rs2 1 300 rs3 0.5''])
         ''1_200'')"
proof -
  have h1: "(0::int) < 10000" by simp
  have h2: "''1 100 rs1 1 200 rs2 0.9'' \<in> set [''1 100 rs1 1 200 rs2 0.9'', ''1 200 rs2 1 300 rs3 0.5'']"
    by simp
  show ?thesis
    using knn_symmetry [OF h1 h2 ex1] h1 h2 ex1 by blast
qed

text \<open>
  Claim C4 (neighbor ordering and top-\<open>k\<close> selection). After the sorting loop every neighbor list
  is non-increasing in \<open>r2\<close>; entries with the same \<open>r2\<close> keep the order in which the lines
  appended them; for any list of seeds the masked set is the seeds together with the first
  \<open>min k (length list)\<close> neighbors of each seed; a variant that no retained edge mentions has no
  neighbors. Here \<open>k\<close> is non-negative and the batch size positive.
\<close>

theorem knn_top_k:
  assumes "0 < batch_size" and "0 \<le> k"
  shows "sorted_wrt (\<lambda>p q. py_ge (snd p) (snd q)) (neighbors_of (knn_graph thr batch_size fl) v)
    \<and> filter (\<lambda>p. snd p = r) (neighbors_of (knn_graph thr batch_size fl) v) =
         filter (\<lambda>p. snd p = r) (concat (map (edge_entries v) (retained_edges thr fl)))
    \<and> set (knn_masked (knn_graph thr batch_size fl) k seeds) =
         set seeds \<union> (\<Union>s \<in> set seeds. fst ` set (take (nat k) (neighbors_of (knn_graph thr batch_size fl) s)))
    \<and> length (take (nat k) (neighbors_of (knn_graph thr batch_size fl) v)) =
         min (nat k) (length (neighbors_of (knn_graph thr batch_size fl) v))
    \<and> ((\<forall>e \<in> set (retained_edges thr fl). fst e \<noteq> v \<and> fst (snd e) \<noteq> v) \<longrightarrow>
         neighbors_of (knn_graph thr batch_size fl) v = [])"
proof -
  let ?raw = "concat (map (edge_entries v) (retained_edges thr fl))"
  have raw: "neighbors_of (knn_graph thr batch_size fl) v = sort_by_r2_desc ?raw"
    using assms(1) by (rule neighbors_knn_graph)
  have "\<forall>p \<in> set ?raw. snd p \<noteq> NaN"
    by (auto dest!: edge_entries_ge py_ge_not_nan)
  then have c1: "sorted_wrt (\<lambda>p q. py_ge (snd p) (snd q)) (neighbors_of (knn_graph thr batch_size fl) v)"
    unfolding raw by (rule sort_by_r2_desc_sorted)
  have c2: "filter (\<lambda>p. snd p = r) (neighbors_of (knn_graph thr batch_size fl) v) = filter (\<lambda>p. snd p = r) ?raw"
    unfolding raw by (rule sort_by_r2_desc_stable)
  have c3: "set (knn_masked (knn_graph thr batch_size fl) k seeds) =
         set seeds \<union> (\<Union>s \<in> set seeds. fst ` set (take (nat k) (neighbors_of (knn_graph thr batch_size fl) s)))"
    using assms(2) by (simp add: set_knn_masked py_slice_to_def)
  have c4: "length (take (nat k) (neighbors_of (knn_graph thr batch_size fl) v)) =
         min (nat k) (length (neighbors_of (knn_graph thr batch_size fl) v))"
    by simp
  have c5: "(\<forall>e \<in> set (retained_edges thr fl). fst e \<noteq> v \<and> fst (snd e) \<noteq> v) \<longrightarrow>
         neighbors_of (knn_graph thr batch_size fl) v = []"
  proof
    assume "\<forall>e \<in> set (retained_edges thr fl). fst e \<noteq> v \<and> fst (snd e) \<noteq> v"
    then have "\<forall>e \<in> set (retained_edges thr fl). edge_entries v e = []"
      by (auto simp: edge_entries_def)
    then have empty: "?raw = []" by simp
    have "sort_by_r2_desc ([] :: (string \<times> pyfloat) list) = []"
      by (simp add: sort_by_r2_desc_def)
    then show "neighbors_of (knn_graph thr batch_size fl) v = []"
      by (simp only: raw empty)
  qed
  from c1 c2 c3 c4 c5 show ?thesis by blast
qed

theorem knn_top_k_witness:
  "(0::int) < 10000 \<and> (0::int) \<le> 1
   \<and> set (knn_masked (knn_graph (Finite (4/5)) 10000
        [''1 100 rs1 1 300 rs3 0.85'', ''1 100 rs1 1 400 rs4 0.95'', ''1 200 rs2 1 300 rs3 0.5''])
        1 [''1_100'']) = {''1_100'', ''1_400''}
   \<and> neighbors_of (knn_graph (Finite (4/5)) 10000
        [''1 100 rs1 1 300 rs3 0.85'', ''1 100 rs1 1 400 rs4 0.95'', ''1 200 rs2 1 300 rs3 0.5''])
        ''1_200'' = []"
proof -
  let ?fl = "[''1 100 rs1 1 300 rs3 0.85'', ''1 100 rs1 1 400 rs4 0.95'', ''1 200 rs2 1 300 rs3 0.5'']"
  have h1: "(0::int) < 10000" by simp
  have h2: "(0::int) \<le> 1" by simp
  have es: "retained_edges (Finite (4/5)) ?fl
            = [(''1_100'', ''1_300'', Finite (7656119366529843/9007199254740992)), (''1_100'', ''1_400'', Finite (4278419646001971/4503599627370496))]"
    by (simp add: retained_edges_def ex3 ex4 ex5)
  have a: "set (knn_masked (knn_graph (Finite (4/5)) 10000 ?fl) 1 [''1_100'']) = {''1_100'', ''1_400''}"
    using knn_top_k [OF h1 h2, of "Finite (4/5)" ?fl "''1_100''" "Finite 1" "[''1_100'']"]
    by (auto simp add: eval_nb_2)
  have b: "neighbors_of (knn_graph (Finite (4/5)) 10000 ?fl) ''1_200'' = []"
    using knn_top_k [OF h1 h2, of "Finite (4/5)" ?fl "''1_200''" "Finite 1" "[]"]
    by (simp add: es)
  from h1 h2 a b show ?thesis by blast
qed

text \<open>
  Claim C8 as stated (both orientations of a pair count as one edge, so that \<open>b\<close> occurs at most
  once in the neighbor list of \<open>a\<close>) does not hold: the loader appends one entry per retained
  line. With the pair \<open>1_100\<close>, \<open>1_200\<close> recorded in both orientations, \<open>1_200\<close> fills the first
  two places of the list of \<open>1_100\<close>, and with \<open>k = 2\<close> the third neighbor \<open>1_300\<close> is not masked.
\<close>

theorem knn_duplicate_orientation_counterexample:
  "map fst (neighbors_of (knn_graph (Finite (4/5)) 10000
      [''1 100 rs1 1 200 rs2 0.9'', ''1 200 rs2 1 100 rs1 0.9'', ''1 100 rs1 1 300 rs3 0.85'']) ''1_100'')
     = [''1_200'', ''1_200'', ''1_300'']
   \<and> ''1_300'' \<notin> set (knn_masked (knn_graph (Finite (4/5)) 10000
      [''1 100 rs1 1 200 rs2 0.9'', ''1 200 rs2 1 100 rs1 0.9'', ''1 100 rs1 1 300 rs3 0.85''])
      2 [''1_100''])"
  by (simp add: set_knn_masked eval_nb_1 py_slice_to_def)

text \<open>
  Claim C8, amended. Orientation duplicates are not merged: for distinct variants \<open>a\<close> and \<open>b\<close>,
  the number of entries for \<open>b\<close> in the neighbor list of \<open>a\<close> is the number of retained lines
  that record the pair in either orientation.
\<close>

theorem knn_no_dedup:
  assumes "0 < batch_size" and "a \<noteq> b"
  shows "length (filter (\<lambda>p. fst p = b) (neighbors_of (knn_graph thr batch_size fl) a))
         = length (filter (records_pair a b) (retained_edges thr fl))"
  using assms by (simp add: neighbors_knn_graph length_filter_sort_by_r2_desc count_concat_entries)

theorem knn_no_dedup_witness:
  "(0::int) < 10000 \<and> ''1_100'' \<noteq> ''1_200''
   \<and> length (filter (\<lambda>p. fst p = ''1_200'') (neighbors_of (knn_graph (Finite (4/5)) 10000
        [''1 100 rs1 1 200 rs2 0.9'', ''1 200 rs2 1 100 rs1 0.9'', ''1 100 rs1 1 300 rs3 0.85''])
        ''1_100'')) = 2"
proof -
  have h1: "(0::int) < 10000" by simp
  have h2: "''1_100'' \<noteq> ''1_200''" by simp
  show ?thesis
    using knn_no_dedup [OF h1 h2, of "Finite (4/5)"
        "[''1 100 rs1 1 200 rs2 0.9'', ''1 200 rs2 1 100 rs1 0.9'', ''1 100 rs1 1 300 rs3 0.85'']"]
    by (simp add: retained_edges_def ex1 ex2 ex3 records_pair_def)
qed

section \<open>The claim about the threshold filters\<close>




section \<open>The claim about random multi-stage masking\<close>

text \<open>
  Claim C5 (three stages of random masking). With \<open>n\<close> variants and target
  \<open>t = int(n * missing_rate)\<close>, the product rounded as Python rounds it and \<open>t\<close> not negative:
  stage 1 takes the first \<open>t\<close> indices of the ascending \<open>argsort\<close> of the stage-1 scores, which
  are \<open>min t n\<close> indices whose scores are at most those of every other index; stage 2 keeps of
  these exactly the indices whose stage-2 score exceeds 0.3, in the order of stage 1; the pool of
  stage 3 holds exactly the indices not kept; stage 3 is one draw without replacement from the
  pool, of as many indices as are missing to the target or as the pool holds, and no draw when
  none is missing or the pool is empty; the result is the kept indices followed by the drawn
  ones, without repetition; and when \<open>t \<le> n\<close> it has exactly \<open>t\<close> elements. The function
  returns without error. NumPy's \<open>argsort\<close> and \<open>permutation\<close> are taken to return what their
  documentation promises.
\<close>

theorem random_three_stages:
  assumes "argsort_ok env" and "permutation_ok env"
    and "length m1 = length snp_list" and "length m2 = length snp_list"
    and "scaled_count (length snp_list) missing_rate = Inr t" and "0 \<le> t"
    and "primary = take (nat t) (np_argsort env m1)"
    and "kept = filter (\<lambda>i. m2 ! i > float_lit (3 / 10)) primary"
    and "pool = filter (\<lambda>i. i \<notin> set kept) [0..<length snp_list]"
    and "need = min (t - int (length kept)) (int (length pool))"
  shows "length primary = min (nat t) (length snp_list)
     \<and> (\<forall>i \<in> set primary. \<forall>j < length snp_list. j \<notin> set primary \<longrightarrow> m1 ! i \<le> m1 ! j)
     \<and> (\<exists>extra.
          apply_structured_masking env missing_rate snp_list [m1, m2, m3] g = Inr (kept @ extra)
          \<and> (if 0 < need then (\<exists>g'. np_choice env pool need g = Inr (extra, g')) else extra = [])
          \<and> distinct (kept @ extra) \<and> set extra \<subseteq> set pool \<and> length extra = nat need
          \<and> (t \<le> int (length snp_list) \<longrightarrow> card (set (kept @ extra)) = nat t))"
proof -
  let ?n = "length snp_list"
  let ?p = "np_argsort env m1"
  from assms(1,3) have p: "distinct ?p" "set ?p = {0..<?n}" "sorted (map (\<lambda>i. m1 ! i) ?p)"
    unfolding argsort_ok_def by (metis)+
  then have lp: "length ?p = ?n" by (simp add: perm_length)
  have prim_len: "length primary = min (nat t) ?n"
    using assms(7) lp by simp
  have prim_dist: "distinct primary"
    using assms(7) p(1) by simp
  have prim_sub: "set primary \<subseteq> {0..<?n}"
    using assms(7) p(2) set_take_subset [of "nat t" ?p] by simp
  have lowest: "\<forall>i \<in> set primary. \<forall>j < ?n. j \<notin> set primary \<longrightarrow> m1 ! i \<le> m1 ! j"
    using argsort_lowest [OF p(1) p(2) p(3)] assms(7) by blast
  have sel: "stage2_select primary (map (\<lambda>i. m2 ! i) primary) = kept"
    using prim_dist assms(8) by (simp add: stage2_select_filter)
  have kept_dist: "distinct kept"
    using assms(8) prim_dist by simp
  have kept_sub: "set kept \<subseteq> {0..<?n}"
    using assms(8) prim_sub by auto
  have kept_len: "length kept \<le> min (nat t) ?n"
    using assms(8) prim_len length_filter_le [of "\<lambda>i. m2 ! i > float_lit (3 / 10)" primary] by simp
  have pool_dist: "distinct pool" using assms(9) by simp
  have pool_set: "set pool = {0..<?n} - set kept"
    using assms(9) by auto
  have pool_len: "length pool = ?n - length kept"
  proof -
    have "length pool = card (set pool)"
      using distinct_card [OF pool_dist] by simp
    also have "\<dots> = card ({0..<?n} - set kept)" by (simp only: pool_set)
    also have "\<dots> = ?n - card (set kept)"
      using kept_sub by (simp add: card_Diff_subset)
    also have "\<dots> = ?n - length kept"
      using distinct_card [OF kept_dist] by simp
    finally show ?thesis .
  qed
  let ?rem = "t - int (length kept)"
  have need_pos: "0 < need \<longleftrightarrow> ?rem > 0 \<and> pool \<noteq> []"
    using assms(10) by auto
  have unfold: "apply_structured_masking env missing_rate snp_list [m1, m2, m3] g =
     (if ?rem > 0 then
        (if pool \<noteq> [] then
           (case np_choice env pool need g of
              Inl e \<Rightarrow> Inl e
            | Inr (additional_indices, _) \<Rightarrow> Inr (set_update additional_indices kept))
         else Inr kept)
      else Inr kept)"
  proof -
    have ps: "py_slice_to t ?p = primary"
      using assms(6,7) by (simp add: py_slice_to_def)
    have nths: "[m1, m2, m3] ! 0 = m1" "[m1, m2, m3] ! 1 = m2"
      by simp_all
    show ?thesis
      unfolding apply_structured_masking_def Let_def assms(5) sum.case nths ps sel
      unfolding assms(9) [symmetric] assms(10) [symmetric] ..
  qed
  have final: "\<exists>extra.
          apply_structured_masking env missing_rate snp_list [m1, m2, m3] g = Inr (kept @ extra)
          \<and> (if 0 < need then (\<exists>g'. np_choice env pool need g = Inr (extra, g')) else extra = [])
          \<and> distinct (kept @ extra) \<and> set extra \<subseteq> set pool \<and> length extra = nat need"
  proof (cases "0 < need")
    case True
    then have k0: "0 \<le> need" by simp
    have kl: "need \<le> int (length pool)" using assms(10) by simp
    from np_choice_ok [OF assms(2) k0 kl pool_dist, of g]
    obtain xs g' where ch: "np_choice env pool need g = Inr (xs, g')"
      and xs: "distinct xs" "set xs \<subseteq> set pool" "length xs = nat need"
      by blast
    have disj: "set xs \<inter> set kept = {}"
      using xs(2) pool_set by auto
    have "apply_structured_masking env missing_rate snp_list [m1, m2, m3] g
            = Inr (set_update xs kept)"
      using True need_pos ch by (simp add: unfold)
    then have res: "apply_structured_masking env missing_rate snp_list [m1, m2, m3] g
            = Inr (kept @ xs)"
      using set_update_append [OF xs(1) disj] by simp
    have d: "distinct (kept @ xs)"
      using kept_dist xs(1) disj by auto
    from res ch d xs True show ?thesis by auto
  next
    case False
    then have "\<not> (?rem > 0 \<and> pool \<noteq> [])" using need_pos by simp
    then have res: "apply_structured_masking env missing_rate snp_list [m1, m2, m3] g = Inr kept"
      by (auto simp: unfold)
    from False have "nat need = 0" by simp
    with res False kept_dist show ?thesis by auto
  qed
  then obtain extra where
    e: "apply_structured_masking env missing_rate snp_list [m1, m2, m3] g = Inr (kept @ extra)"
       "if 0 < need then (\<exists>g'. np_choice env pool need g = Inr (extra, g')) else extra = []"
       "distinct (kept @ extra)" "set extra \<subseteq> set pool" "length extra = nat need"
    by blast
  have total: "card (set (kept @ extra)) = nat t" if "t \<le> int ?n"
  proof -
    have "card (set (kept @ extra)) = length kept + length extra"
      using distinct_card [OF e(3)] by simp
    also have "\<dots> = length kept + nat need"
      by (simp only: e(5))
    also have "\<dots> = nat t"
    proof -
      have k: "int (length kept) \<le> t" using kept_len assms(6) by linarith
      have "int (length pool) = int ?n - int (length kept)"
        using pool_len kept_len by linarith
      with that have "need = t - int (length kept)"
        using assms(10) by simp
      with k show ?thesis by simp
    qed
    finally show ?thesis .
  qed
  from e total prim_len lowest show ?thesis by blast
qed

theorem random_three_stages_witness:
  "scaled_count (length [''1_100'', ''1_200'', ''1_300'', ''1_400'']) (1 / 2) = Inr 2
   \<and> take (nat 2) (np_argsort demo_env [9/10, 1/10, 1/2, 1/5]) = [1, 3]
   \<and> filter (\<lambda>i. [1/2, 4/5, 1/2, 1/10] ! i > float_lit (3 / 10)) [1, 3] = [1]
   \<and> filter (\<lambda>i. i \<notin> set [1]) [0..<length [''1_100'', ''1_200'', ''1_300'', ''1_400'']] = [0, 2, 3]
   \<and> np_choice demo_env [0, 2, 3 :: nat] 1 45 = Inr ([0], 46)
   \<and> apply_structured_masking demo_env (1 / 2) [''1_100'', ''1_200'', ''1_300'', ''1_400'']
        [[9/10, 1/10, 1/2, 1/5], [1/2, 4/5, 1/2, 1/10], [0, 0, 0, 0]] 45 = Inr [1, 0]
   \<and> card (set [1, 0 :: nat]) = 2"
proof -
  let ?l = "[''1_100'', ''1_200'', ''1_300'', ''1_400'']"
  have len4: "length ?l = 4" by simp
  have sc: "scaled_count (length ?l) (1 / 2) = Inr 2"
    by (simp only: len4 scaled_count_4_half)
  have h0: "(0::int) \<le> 2" by simp
  have l1: "length [9/10, 1/10, 1/2, 1/5 :: real] = length ?l" by simp
  have l2: "length [1/2, 4/5, 1/2, 1/10 :: real] = length ?l" by simp
  have pr: "[1, 3] = take (nat 2) (np_argsort demo_env [9/10, 1/10, 1/2, 1/5])"
    by (simp add: demo_argsort)
  have kp: "[1] = filter (\<lambda>i. [1/2, 4/5, 1/2, 1/10 :: real] ! i > float_lit (3 / 10)) [1, 3]"
    by (simp add: float_lit_3_10)
  have po: "[0, 2, 3] = filter (\<lambda>i. i \<notin> set [1]) [0..<length ?l]"
    by (simp add: upt_rec)
  have nd: "1 = min (2 - int (length [1::nat])) (int (length [0, 2, 3 :: nat]))"
    by simp
  have ch: "np_choice demo_env [0, 2, 3 :: nat] 1 45 = Inr ([0], 46)"
    by (simp add: np_choice_def demo_env_def upt_rec)
  from random_three_stages [OF argsort_ok_demo permutation_ok_demo l1 l2 sc h0 pr kp po nd,
      of "[0, 0, 0, 0]" 45]
  obtain extra where
    e: "apply_structured_masking demo_env (1 / 2) ?l
          [[9/10, 1/10, 1/2, 1/5], [1/2, 4/5, 1/2, 1/10], [0, 0, 0, 0]] 45 = Inr ([1] @ extra)"
       "if (0::int) < 1 then (\<exists>g'. np_choice demo_env [0, 2, 3] 1 45 = Inr (extra, g')) else extra = []"
       "int (length ?l) \<ge> 2 \<longrightarrow> card (set ([1] @ extra)) = nat 2"
    by auto
  from e(2) ch have "extra = [0]" by simp
  with e(1) have r: "apply_structured_masking demo_env (1 / 2) ?l
          [[9/10, 1/10, 1/2, 1/5], [1/2, 4/5, 1/2, 1/10], [0, 0, 0, 0]] 45 = Inr [1, 0]"
    by simp
  have c: "card (set [1, 0 :: nat]) = 2" by simp
  from sc pr [symmetric] kp [symmetric] po [symmetric] ch r c show ?thesis
    by blast
qed

section \<open>The claims about the MAF simulator, the distance matrix and empty input\<close>

text \<open>
  Claim C9 (MAF bound). Every value returned by the Markov simulator lies in the closed interval
  from 0 to 0.5, one value per variant (and a single value for an empty list of variants): each
  emission is a Beta draw, or half a Beta draw, and is capped at 0.5. A Beta draw is not
  negative.
\<close>

theorem simulate_maf_bounds:
  assumes "beta_ok env"
  shows "(\<forall>x \<in> set (simulate_maf env snp_positions). 0 \<le> x \<and> x \<le> 1 / 2)
       \<and> length (simulate_maf env snp_positions) = max 1 (length snp_positions)"
proof -
  obtain s0 g1 where a: "np_choice_p env [3 / 10, 7 / 10] (np_seed env 42) = (s0, g1)"
    by (cases "np_choice_p env [3 / 10, 7 / 10] (np_seed env 42)")
  obtain rest g2 where b: "markov_states env (length snp_positions - 1) s0 g1 = (rest, g2)"
    by (cases "markov_states env (length snp_positions - 1) s0 g1")
  have eq: "simulate_maf env snp_positions = emit_maf env (s0 # rest) g2"
    using a b by (simp add: simulate_maf_def)
  have "length rest = length snp_positions - 1"
    using length_markov_states [of env "length snp_positions - 1" s0 g1] b by simp
  then have "length (simulate_maf env snp_positions) = max 1 (length snp_positions)"
    unfolding eq length_emit_maf by simp
  moreover have "\<forall>x \<in> set (simulate_maf env snp_positions). 0 \<le> x \<and> x \<le> 1 / 2"
    unfolding eq using emit_maf_bounds [OF assms] by blast
  ultimately show ?thesis by blast
qed

theorem simulate_maf_bounds_witness:
  "beta_ok demo_env
   \<and> 0 \<le> simulate_maf demo_env [''1_100'', ''1_200''] ! 0
   \<and> simulate_maf demo_env [''1_100'', ''1_200''] ! 0 \<le> 1 / 2
   \<and> 0 \<le> simulate_maf demo_env [''1_100'', ''1_200''] ! 1
   \<and> simulate_maf demo_env [''1_100'', ''1_200''] ! 1 \<le> 1 / 2
   \<and> length (simulate_maf demo_env [''1_100'', ''1_200'']) = 2"
proof -
  let ?s = "simulate_maf demo_env [''1_100'', ''1_200'']"
  from simulate_maf_bounds [OF beta_ok_demo, of "[''1_100'', ''1_200'']"]
  have b: "\<forall>x \<in> set ?s. 0 \<le> x \<and> x \<le> 1 / 2" and l: "length ?s = 2"
    by simp_all
  from l have "?s ! 0 \<in> set ?s" "?s ! 1 \<in> set ?s"
    by simp_all
  with b l beta_ok_demo show ?thesis by blast
qed

text \<open>
  Claim C6 (distance matrix: 0 on the diagonal, \<open>1 - r2\<close> at retained pairs, 1 elsewhere),
  evaluated on the code at a file with one retained edge. The loop that is to write \<open>r2\<close> into
  the LD matrix binds each row dictionary of seven columns to a target list of two names and
  raises \<^verbatim>\<open>ValueError\<close> on the first row, so the call ends without a matrix and without a mask.
\<close>

theorem cluster_loop_fails_on_first_edge:
  "maf_create_mask demo_env (1 / 20) (1 / 10) (Finite (4 / 5)) 3 [''1 100 rs1 1 200 rs2 0.9''] 10000
     = Failed ValueError None"
  by (simp add: maf_create_mask_def maf_load_single maf_batch_def maf_line_def ex9 ex10
      pl_frame_text_def create_ld_clusters_def ld_row_of_def ld_columns_def unpack_pair_def Let_def)

text \<open>
  Claim C7 (no failure on a file without retained lines), evaluated on the code. With no line
  passing its filter, the k-nearest strategy writes an empty table and then raises
  \<^verbatim>\<open>ZeroDivisionError\<close> in its final report; the random strategy raises it before the table is
  built; the MAF+cluster strategy ends with the \<^verbatim>\<open>ValueError\<close> of the clustering, which asks
  for two samples at least. The column-wise strategy returns an empty table.
\<close>

theorem empty_filtered_input_raises:
  "knn_create_mask demo_env 5 (1 / 10) (Finite (4 / 5)) [''1 200 rs2 1 300 rs3 0.5''] 10000
     = Failed ZeroDivisionError (Some [])
   \<and> random_create_mask demo_env (1 / 10) 42 [''CHR_A BP_A SNP_A CHR_B BP_B SNP_B R2''] 10000
     = Failed ZeroDivisionError None
   \<and> maf_create_mask demo_env (1 / 20) (1 / 10) (Finite (4 / 5)) 3 [''1 200 rs2 1 300 rs3 0.5''] 10000
     = Failed ValueError None
   \<and> columnwise_create_mask demo_env (1 / 10) [''CHR_A BP_A SNP_A CHR_B BP_B SNP_B R2''] 10000
     = Done []"
proof -
  have k: "knn_load (Finite (4 / 5)) 10000 [''1 200 rs2 1 300 rs3 0.5''] = knn_init"
    by (simp add: knn_load_lines knn_line_def ex5)
  have c: "collect_snps 10000 [''CHR_A BP_A SNP_A CHR_B BP_B SNP_B R2''] = []"
    by (simp add: collect_snps_def foldl_foldl_concat concat_read_batches collect_line_def ex13)
  have m: "maf_load (Finite (4 / 5)) 10000 [''1 200 rs2 1 300 rs3 0.5'']
             = \<lparr>ld_rows = [], maf_unique_snps = []\<rparr>"
    by (simp add: maf_load_single maf_batch_def maf_line_def ex11 ex12 pl_frame_text_def)
  have s: "sorted_snps demo_env [] = []"
    by (simp add: sorted_snps_def demo_env_def)
  have u: "unique_snps knn_init = []"
    by (simp add: knn_init_def)
  have rnd0: "np_random demo_env 0 g = ([], Suc g)" for g
    by (simp add: demo_env_def)
  have argsort0: "np_argsort demo_env [] = []"
    by (simp add: demo_env_def stable_argsort_def)
  have 1: "knn_create_mask demo_env 5 (1 / 10) (Finite (4 / 5)) [''1 200 rs2 1 300 rs3 0.5''] 10000
     = Failed ZeroDivisionError (Some [])"
    by (simp add: knn_create_mask_def k u s scaled_count_zero np_choice_empty knn_masked_def
        pl_dataframe_def Let_def)
  have 2: "random_create_mask demo_env (1 / 10) 42 [''CHR_A BP_A SNP_A CHR_B BP_B SNP_B R2''] 10000
     = Failed ZeroDivisionError None"
    by (simp add: random_create_mask_def c s generate_random_masks_def rnd0 argsort0
        apply_structured_masking_def scaled_count_zero py_slice_to_def stage2_select_def
        quantify_masking_strength_def Let_def)
  have 3: "maf_create_mask demo_env (1 / 20) (1 / 10) (Finite (4 / 5)) 3 [''1 200 rs2 1 300 rs3 0.5''] 10000
     = Failed ValueError None"
    by (simp add: maf_create_mask_def m s create_ld_clusters_def np_eye_def one_minus_def
        fit_predict_def Let_def)
  have 4: "columnwise_create_mask demo_env (1 / 10) [''CHR_A BP_A SNP_A CHR_B BP_B SNP_B R2''] 10000
     = Done []"
    by (simp add: columnwise_create_mask_def c s scaled_count_zero np_choice_empty
        pl_dataframe_def Let_def)
  from 1 2 3 4 show ?thesis by blast
qed

section \<open>The claim about the rows of the mask tables\<close>




section \<open>The claim about determinism\<close>

text \<open>
  Claim C1 (determinism). Two runs of a strategy on the same file with the same seed write the
  same table or fail alike. The generator is a function of its seed, so both runs draw the same
  numbers; what may differ between two runs of the interpreter is the order in which a set of
  strings is enumerated. For each of the five strategies, the outcome under any enumeration
  order \<open>other_order\<close> equals the outcome under the order of \<open>env\<close>, both orders enumerating every
  set without loss or repetition.
\<close>

theorem masking_deterministic:
  assumes "order_ok env" and "order_ok (env\<lparr>set_order := other_order\<rparr>)"
  shows "columnwise_create_mask (env\<lparr>set_order := other_order\<rparr>) missing_rate fl batch_size
           = columnwise_create_mask env missing_rate fl batch_size
       \<and> random_create_mask (env\<lparr>set_order := other_order\<rparr>) missing_rate seed fl batch_size
           = random_create_mask env missing_rate seed fl batch_size
       \<and> rowwise_create_mask (env\<lparr>set_order := other_order\<rparr>) high_thr fl batch_size
           = rowwise_create_mask env high_thr fl batch_size
       \<and> knn_create_mask (env\<lparr>set_order := other_order\<rparr>) k missing_rate thr fl batch_size
           = knn_create_mask env k missing_rate thr fl batch_size
       \<and> maf_create_mask (env\<lparr>set_order := other_order\<rparr>) maf_thr missing_rate thr csm fl batch_size
           = maf_create_mask env maf_thr missing_rate thr csm fl batch_size"
proof -
  let ?env' = "env\<lparr>set_order := other_order\<rparr>"
  have s: "sorted_snps ?env' u = sorted_snps env u" if "distinct u" for u
    using assms that by (rule sorted_snps_order_irrelevant)
  have s1: "sorted_snps ?env' (collect_snps batch_size fl) = sorted_snps env (collect_snps batch_size fl)"
    by (rule s) (rule distinct_collect_snps)
  have s2: "sorted_snps ?env' (unique_snps (knn_load thr batch_size fl))
              = sorted_snps env (unique_snps (knn_load thr batch_size fl))"
    by (rule s) (rule distinct_knn_unique)
  have s3: "sorted_snps ?env' (maf_unique_snps (maf_load thr batch_size fl))
              = sorted_snps env (maf_unique_snps (maf_load thr batch_size fl))"
    by (rule s) (rule distinct_maf_unique)
  have c1: "columnwise_create_mask ?env' missing_rate fl batch_size
           = columnwise_create_mask env missing_rate fl batch_size"
    by (simp add: columnwise_create_mask_def s1 np_choice_order cong: branch_congs)
  have c2: "random_create_mask ?env' missing_rate seed fl batch_size
           = random_create_mask env missing_rate seed fl batch_size"
    by (simp add: random_create_mask_def s1 generate_random_masks_order
        apply_structured_masking_order cong: branch_congs)
  have c3: "rowwise_create_mask ?env' high_thr fl batch_size
           = rowwise_create_mask env high_thr fl batch_size"
    by (simp add: rowwise_create_mask_def s1 simulate_sample_data_order apply_rowwise_order
        cong: branch_congs)
  have c4: "knn_create_mask ?env' k missing_rate thr fl batch_size
           = knn_create_mask env k missing_rate thr fl batch_size"
    by (simp add: knn_create_mask_def s2 np_choice_order cong: branch_congs)
  have c5: "maf_create_mask ?env' maf_thr missing_rate thr csm fl batch_size
           = maf_create_mask env maf_thr missing_rate thr csm fl batch_size"
    by (simp add: maf_create_mask_def s3 simulate_maf_order create_ld_clusters_order
        maf_select_rare_order maf_select_clusters_order cong: branch_congs)
  from c1 c2 c3 c4 c5 show ?thesis by blast
qed

theorem masking_deterministic_witness:
  "set_order (demo_env\<lparr>set_order := (\<lambda>xs. xs)\<rparr>) [''1_100'', ''1_200'']
     \<noteq> set_order demo_env [''1_100'', ''1_200'']
   \<and> columnwise_create_mask (demo_env\<lparr>set_order := (\<lambda>xs. xs)\<rparr>) (1 / 10)
         [''1 100 rs1 1 200 rs2 0.9'', ''1 200 rs2 1 300 rs3 0.5''] 10000
       = columnwise_create_mask demo_env (1 / 10)
         [''1 100 rs1 1 200 rs2 0.9'', ''1 200 rs2 1 300 rs3 0.5''] 10000
   \<and> random_create_mask (demo_env\<lparr>set_order := (\<lambda>xs. xs)\<rparr>) (1 / 10) 42
         [''1 100 rs1 1 200 rs2 0.9'', ''1 200 rs2 1 300 rs3 0.5''] 10000
       = random_create_mask demo_env (1 / 10) 42
         [''1 100 rs1 1 200 rs2 0.9'', ''1 200 rs2 1 300 rs3 0.5''] 10000
   \<and> rowwise_create_mask (demo_env\<lparr>set_order := (\<lambda>xs. xs)\<rparr>) (3 / 10)
         [''1 100 rs1 1 200 rs2 0.9'', ''1 200 rs2 1 300 rs3 0.5''] 10000
       = rowwise_create_mask demo_env (3 / 10)
         [''1 100 rs1 1 200 rs2 0.9'', ''1 200 rs2 1 300 rs3 0.5''] 10000
   \<and> knn_create_mask (demo_env\<lparr>set_order := (\<lambda>xs. xs)\<rparr>) 5 (1 / 10) (Finite (4 / 5))
         [''1 100 rs1 1 200 rs2 0.9'', ''1 200 rs2 1 300 rs3 0.5''] 10000
       = knn_create_mask demo_env 5 (1 / 10) (Finite (4 / 5))
         [''1 100 rs1 1 200 rs2 0.9'', ''1 200 rs2 1 300 rs3 0.5''] 10000
   \<and> maf_create_mask (demo_env\<lparr>set_order := (\<lambda>xs. xs)\<rparr>) (1 / 20) (1 / 10) (Finite (4 / 5)) 3
         [''1 100 rs1 1 200 rs2 0.9'', ''1 200 rs2 1 300 rs3 0.5''] 10000
       = maf_create_mask demo_env (1 / 20) (1 / 10) (Finite (4 / 5)) 3
         [''1 100 rs1 1 200 rs2 0.9'', ''1 200 rs2 1 300 rs3 0.5''] 10000"
proof -
  have d: "set_order (demo_env\<lparr>set_order := (\<lambda>xs. xs)\<rparr>) [''1_100'', ''1_200'']
             \<noteq> set_order demo_env [''1_100'', ''1_200'']"
    by (simp add: demo_env_def)
  from masking_deterministic [OF order_ok_demo order_ok_demo_insertion] d
  show ?thesis by blast
qed

end
